theory Spec2Isabelle
  imports Complex_Main "HOL-Library.Word"
begin

section \<open>The lattice container: class State of mathutil.h\<close>

text \<open>
  \<^verbatim>\<open>State<N, M, bool>\<close> holds \<^verbatim>\<open>bool _elements[N][M]\<close>. The template arguments
  \<open>N\<close> and \<open>M\<close> are explicit arguments here and the array is a list of \<open>N\<close> rows of
  \<open>M\<close> cells. Copy construction and assignment copy every cell, so a lattice is a value.
\<close>

type_synonym lattice = "bool list list"

datatype error = InvalidSize | DivisionByZero

definition State_wf :: "nat \<Rightarrow> nat \<Rightarrow> lattice \<Rightarrow> bool" where
  "State_wf N M s \<longleftrightarrow> length s = N \<and> list_all (\<lambda>row. length row = M) s"

text \<open>
  \<^verbatim>\<open>static_assert(N != 0 && M != 0, "invalid size")\<close> rejects the instantiation, then
  \<^verbatim>\<open>State(const T& init)\<close> fills every cell.
\<close>

definition State_ctor :: "nat \<Rightarrow> nat \<Rightarrow> bool \<Rightarrow> error + lattice" where
  "State_ctor N M init =
     (if N \<noteq> 0 \<and> M \<noteq> 0 then Inr (replicate N (replicate M init)) else Inl InvalidSize)"

definition State_at :: "lattice \<Rightarrow> nat \<Rightarrow> nat \<Rightarrow> bool" where
  "State_at s row col = s ! row ! col"

text \<open>The assignment \<^verbatim>\<open>state[row][col] = value\<close>.\<close>

definition State_set :: "lattice \<Rightarrow> nat \<Rightarrow> nat \<Rightarrow> bool \<Rightarrow> lattice" where
  "State_set s row col v = s[row := (s ! row)[col := v]]"

definition State_init :: "nat \<Rightarrow> nat \<Rightarrow> bool \<Rightarrow> lattice" where
  "State_init N M v = replicate N (replicate M v)"

section \<open>Double-precision arithmetic\<close>

text \<open>
  What a \<^verbatim>\<open>double\<close> holds: a finite number, an infinity or a NaN. Arithmetic on finite
  operands rounds the exact result to the nearest binary64 number, ties to even, with
  gradual underflow below \<open>2 powi (- 1022)\<close> and overflow to an infinity from
  \<open>2 powi 1024\<close> on.
  The sign of a zero is not modelled: a zero divisor is taken as \<open>+0.0\<close>, and statements
  that depend on the sign of an infinity exclude a zero divisor.
\<close>

datatype double = Fin real | PInf | NInf | NaN

definition binade :: "real \<Rightarrow> int" where
  "binade x = max \<lfloor>log 2 \<bar>x\<bar>\<rfloor> (- 1022)"

definition ulp :: "real \<Rightarrow> real" where
  "ulp x = 2 powi (binade x - 52)"

definition round_even :: "real \<Rightarrow> int" where
  "round_even y =
     (let f = \<lfloor>y\<rfloor>; d = y - of_int f
      in if d < 1 / 2 then f else if 1 / 2 < d then f + 1 else if even f then f else f + 1)"

definition grid_round :: "real \<Rightarrow> real" where
  "grid_round x = of_int (round_even (x / ulp x)) * ulp x"

definition d_round :: "real \<Rightarrow> double" where
  "d_round x =
     (if x = 0 then Fin 0
      else if 2 powi 1024 \<le> \<bar>grid_round x\<bar> then (if 0 < x then PInf else NInf)
      else Fin (grid_round x))"

fun d_add :: "double \<Rightarrow> double \<Rightarrow> double" where
  "d_add (Fin a) (Fin b) = d_round (a + b)"
| "d_add NaN y = NaN"
| "d_add x NaN = NaN"
| "d_add PInf NInf = NaN"
| "d_add NInf PInf = NaN"
| "d_add PInf y = PInf"
| "d_add NInf y = NInf"
| "d_add x PInf = PInf"
| "d_add x NInf = NInf"

fun d_mul :: "double \<Rightarrow> double \<Rightarrow> double" where
  "d_mul (Fin a) (Fin b) = d_round (a * b)"
| "d_mul NaN y = NaN"
| "d_mul x NaN = NaN"
| "d_mul PInf (Fin b) = (if b = 0 then NaN else if 0 < b then PInf else NInf)"
| "d_mul NInf (Fin b) = (if b = 0 then NaN else if 0 < b then NInf else PInf)"
| "d_mul (Fin a) PInf = (if a = 0 then NaN else if 0 < a then PInf else NInf)"
| "d_mul (Fin a) NInf = (if a = 0 then NaN else if 0 < a then NInf else PInf)"
| "d_mul PInf PInf = PInf"
| "d_mul NInf NInf = PInf"
| "d_mul PInf NInf = NInf"
| "d_mul NInf PInf = NInf"

fun d_div :: "double \<Rightarrow> double \<Rightarrow> double" where
  "d_div (Fin a) (Fin b) =
     (if b = 0 then (if a = 0 then NaN else if 0 < a then PInf else NInf)
      else d_round (a / b))"
| "d_div NaN y = NaN"
| "d_div x NaN = NaN"
| "d_div (Fin a) PInf = Fin 0"
| "d_div (Fin a) NInf = Fin 0"
| "d_div PInf (Fin b) = (if 0 \<le> b then PInf else NInf)"
| "d_div NInf (Fin b) = (if 0 \<le> b then NInf else PInf)"
| "d_div PInf y = NaN"
| "d_div NInf y = NaN"

fun d_less :: "double \<Rightarrow> double \<Rightarrow> bool" where
  "d_less (Fin a) (Fin b) \<longleftrightarrow> a < b"
| "d_less NaN y \<longleftrightarrow> False"
| "d_less x NaN \<longleftrightarrow> False"
| "d_less x NInf \<longleftrightarrow> False"
| "d_less PInf y \<longleftrightarrow> False"
| "d_less NInf y \<longleftrightarrow> True"
| "d_less x PInf \<longleftrightarrow> True"

text \<open>
  \<^verbatim>\<open>std::tanh\<close> and \<^verbatim>\<open>exp\<close> are library code and a parameter of the model, as the
  standard does not fix their last bit.
\<close>

record cmath =
  std_tanh :: "double \<Rightarrow> double"
  std_exp :: "double \<Rightarrow> double"

text \<open>The range the C standard gives \<^verbatim>\<open>tanh\<close>: a number from \<open>-1\<close> to \<open>1\<close>.\<close>

definition tanh_range :: "double \<Rightarrow> bool" where
  "tanh_range d = (case d of Fin t \<Rightarrow> - 1 \<le> t \<and> t \<le> 1 | PInf \<Rightarrow> False | NInf \<Rightarrow> False | NaN \<Rightarrow> False)"

definition in_unit_interval :: "double \<Rightarrow> bool" where
  "in_unit_interval d = (case d of Fin r \<Rightarrow> 0 \<le> r \<and> r \<le> 1 | PInf \<Rightarrow> False | NInf \<Rightarrow> False | NaN \<Rightarrow> False)"

section \<open>The physical model: class IsingModel of isingmodel.h\<close>

text \<open>
  The fields of \<^verbatim>\<open>IsingModel::Parameter\<close>: three 32-bit \<^verbatim>\<open>int\<close>s and two
  \<^verbatim>\<open>double\<close>s. \<open>param_T\<close> and \<open>param_kb\<close> are the numbers the fields are set to;
  \<open>d_round\<close> gives the \<^verbatim>\<open>double\<close> the field then holds.
\<close>

record Parameter =
  param_N :: "32 word"
  param_z :: "32 word"
  param_J :: "32 word"
  param_T :: real
  param_kb :: real

definition Parameter_default :: Parameter where
  "Parameter_default =
     \<lparr>param_N = 1, param_z = 1, param_J = 1, param_T = 1 / 10, param_kb = 1\<rparr>"

text \<open>\<^verbatim>\<open>IsingModel::kbT\<close>, the product \<^verbatim>\<open>param.kb * param.T\<close> of two \<^verbatim>\<open>double\<close>s.\<close>

definition kbT :: "Parameter \<Rightarrow> double" where
  "kbT p = d_mul (d_round (param_kb p)) (d_round (param_T p))"

definition isingSpin :: "bool \<Rightarrow> real" where
  "isingSpin b = (if b then 1 else - 1)"

text \<open>
  \<^verbatim>\<open>IsingModel::energy\<close>: both loops stop one short of the size, and every visited site
  adds its rightward and its downward product. \<^verbatim>\<open>- param.J\<close> negates the 32-bit
  \<^verbatim>\<open>int\<close>, which wraps at the least value, before the product with the \<^verbatim>\<open>double\<close>.
  The accumulator is a \<^verbatim>\<open>double\<close>; its value is written as a real number, which is
  exact as long as every partial sum is an integer of magnitude at most \<open>2 ^ 53\<close>.
\<close>

definition energy :: "Parameter \<Rightarrow> nat \<Rightarrow> nat \<Rightarrow> lattice \<Rightarrow> real" where
  "energy p N M state =
     fold (\<lambda>r. fold (\<lambda>c e. e + real_of_int (sint (- param_J p)) *
                  (isingSpin (State_at state r c) *
                    (isingSpin (State_at state r (c + 1)) + isingSpin (State_at state (r + 1) c))))
               [0..<M - 1])
          [0..<N - 1] 0"

text \<open>
  The sum as the specification words it: every rightward pair and every downward pair
  of the \<open>N \<times> M\<close> grid, each once, no wraparound pair.
\<close>

definition energy_all_pairs :: "Parameter \<Rightarrow> nat \<Rightarrow> nat \<Rightarrow> lattice \<Rightarrow> real" where
  "energy_all_pairs p N M state =
     - real_of_int (sint (param_J p)) *
       ((\<Sum>r\<leftarrow>[0..<N]. \<Sum>c\<leftarrow>[0..<M - 1].
            isingSpin (State_at state r c) * isingSpin (State_at state r (c + 1))) +
        (\<Sum>r\<leftarrow>[0..<N - 1]. \<Sum>c\<leftarrow>[0..<M].
            isingSpin (State_at state r c) * isingSpin (State_at state (r + 1) c)))"

text \<open>
  \<^verbatim>\<open>IsingModel::magnetization\<close> and \<^verbatim>\<open>IsingModel::averageSpin\<close>; the latter carries
  \<^verbatim>\<open>static_assert(spinCount != 0, "division by zero")\<close>.
\<close>

definition magnetization :: "nat \<Rightarrow> nat \<Rightarrow> lattice \<Rightarrow> real" where
  "magnetization N M state =
     fold (\<lambda>n. fold (\<lambda>m Mag. Mag + isingSpin (State_at state n m)) [0..<M]) [0..<N] 0"

definition averageSpin :: "nat \<Rightarrow> nat \<Rightarrow> lattice \<Rightarrow> error + real" where
  "averageSpin N M state =
     (let spinCount = N * M
      in if spinCount \<noteq> 0 then Inr (magnetization N M state / real spinCount)
         else Inl DivisionByZero)"

section \<open>Pseudorandom streams\<close>

text \<open>
  \<^verbatim>\<open>std::mt19937\<close> and the distributions of \<^verbatim>\<open><random>\<close> are library code. They are
  a parameter of the model: \<open>'g\<close> is the engine's state, \<open>mt_seed\<close> is
  \<^verbatim>\<open>mt.seed(seed)\<close>, which replaces the whole engine state, and a distribution applied
  to an engine returns the drawn number and the advanced engine. The distributions are
  \<^verbatim>\<open>static const\<close> objects and keep no state of their own.
\<close>

record 'g stdrandom =
  mt_seed :: "32 word \<Rightarrow> 'g"
  uniform_int :: "nat \<Rightarrow> nat \<Rightarrow> 'g \<Rightarrow> nat \<times> 'g"
  uniform_real :: "real \<Rightarrow> real \<Rightarrow> 'g \<Rightarrow> real \<times> 'g"

datatype LatticeType = Square | Triangle | Rhombus | Hexagonal

text \<open>
  Every engine is an \<^verbatim>\<open>inline static\<close> data member, so there is one per class: one for
  each instantiation \<^verbatim>\<open>State<N, M, bool>\<close>, one for \<^verbatim>\<open>IsingModel\<close>, one for each
  \<^verbatim>\<open>IsingHeatBathMethod<L>\<close>. \<^verbatim>\<open>MetropolisMethod\<close> has none. The static storage of
  the program is this record; the objects themselves hold no engine.
\<close>

record 'g statics =
  State_mt :: "nat \<times> nat \<Rightarrow> 'g"
  IsingModel_mt :: 'g
  IsingHeatBathMethod_mt :: "LatticeType \<Rightarrow> 'g"

definition State_setSeed :: "'g stdrandom \<Rightarrow> nat \<Rightarrow> nat \<Rightarrow> 32 word \<Rightarrow> 'g statics \<Rightarrow> 'g statics" where
  "State_setSeed L N M seed w = w\<lparr>State_mt := (State_mt w)((N, M) := mt_seed L seed)\<rparr>"

definition IsingModel_setSeed :: "'g stdrandom \<Rightarrow> 32 word \<Rightarrow> 'g statics \<Rightarrow> 'g statics" where
  "IsingModel_setSeed L seed w = w\<lparr>IsingModel_mt := mt_seed L seed\<rparr>"

definition IsingHeatBathMethod_setSeed ::
  "'g stdrandom \<Rightarrow> LatticeType \<Rightarrow> 32 word \<Rightarrow> 'g statics \<Rightarrow> 'g statics" where
  "IsingHeatBathMethod_setSeed L lat seed w =
     w\<lparr>IsingHeatBathMethod_mt := (IsingHeatBathMethod_mt w)(lat := mt_seed L seed)\<rparr>"

text \<open>
  \<^verbatim>\<open>State::initRand\<close> for the \<^verbatim>\<open>bool\<close> payload: every cell, row by row, becomes
  \<^verbatim>\<open>bitRand(mt) % 2 == 0\<close> with \<^verbatim>\<open>bitRand\<close> uniform on \<open>{0, 1}\<close>.
\<close>

definition State_initRand ::
  "'g stdrandom \<Rightarrow> nat \<Rightarrow> nat \<Rightarrow> lattice \<Rightarrow> 'g statics \<Rightarrow> lattice \<times> 'g statics" where
  "State_initRand L N M state w =
     (let (state', g') =
        fold (\<lambda>n. fold (\<lambda>m (s, g). let (b, g1) = uniform_int L 0 1 g
                                     in (State_set s n m (b mod 2 = 0), g1)) [0..<M])
             [0..<N] (state, State_mt w (N, M))
      in (state', w\<lparr>State_mt := (State_mt w)((N, M) := g')\<rparr>))"

section \<open>Proposal and acceptance of IsingModel\<close>

text \<open>
  \<^verbatim>\<open>IsingModel::randomAction\<close>, lines 75 to 82, for the drawn \<open>row\<close> and \<open>col\<close>: the
  site is flipped, then the two \<^verbatim>\<open>if\<close>/\<^verbatim>\<open>else if\<close> chains copy the new value to the
  opposite edge row and to the opposite edge column.
\<close>

definition randomAction_at :: "nat \<Rightarrow> nat \<Rightarrow> nat \<Rightarrow> nat \<Rightarrow> lattice \<Rightarrow> lattice" where
  "randomAction_at N M row col state =
     (let val = \<not> State_at state row col;
          s1 = State_set state row col val;
          s2 = (if row = 0 then State_set s1 (N - 1) col val
                else if row = N - 1 then State_set s1 0 col val
                else s1);
          s3 = (if col = 0 then State_set s2 row (M - 1) val
                else if col = M - 1 then State_set s2 row 0 val
                else s2)
      in s3)"

text \<open>The whole member function: both indices are drawn from the engine of \<^verbatim>\<open>IsingModel\<close>.\<close>

definition randomAction ::
  "'g stdrandom \<Rightarrow> Parameter \<Rightarrow> nat \<Rightarrow> nat \<Rightarrow> lattice \<Rightarrow> 'g statics \<Rightarrow> lattice \<times> 'g statics" where
  "randomAction L p N M state w =
     (let (row, g1) = uniform_int L 0 (N - 1) (IsingModel_mt w);
          (col, g2) = uniform_int L 0 (M - 1) g1
      in (randomAction_at N M row col state, w\<lparr>IsingModel_mt := g2\<rparr>))"

text \<open>
  \<^verbatim>\<open>IsingModel::randomAccept\<close>: the drawn number against
  \<^verbatim>\<open>exp(- (nextEnergy - prevEnergy) / kbT())\<close>, all in \<^verbatim>\<open>double\<close>.
\<close>

definition randomAccept ::
  "'g stdrandom \<Rightarrow> cmath \<Rightarrow> Parameter \<Rightarrow> real \<Rightarrow> real \<Rightarrow> 'g statics \<Rightarrow> bool \<times> 'g statics" where
  "randomAccept L C p prevEnergy nextEnergy w =
     (let (u, g1) = uniform_real L 0 1 (IsingModel_mt w)
      in (d_less (Fin u) (std_exp C (d_div (d_round (- (nextEnergy - prevEnergy))) (kbT p))),
          w\<lparr>IsingModel_mt := g1\<rparr>))"

section \<open>MetropolisMethod of mathutil.h\<close>

text \<open>
  The class is generic in the three member functions it is instantiated with; they are
  arguments here, already applied to the model object. \<open>'w\<close> is whatever the action and
  the acceptance draw read and change besides the lattice.
\<close>

definition MetropolisMethod_update ::
  "('st \<Rightarrow> real) \<Rightarrow> ('st \<Rightarrow> 'w \<Rightarrow> 'st \<times> 'w) \<Rightarrow> (real \<Rightarrow> real \<Rightarrow> 'w \<Rightarrow> bool \<times> 'w) \<Rightarrow>
     'st \<Rightarrow> 'w \<Rightarrow> 'st \<times> 'w" where
  "MetropolisMethod_update fEnergy fAction fRandAccept state w =
     (let prevEnergy = fEnergy state;
          (nextState, w1) = fAction state w;
          nextEnergy = fEnergy nextState
      in if nextEnergy < prevEnergy then (nextState, w1)
         else (let (accepted, w2) = fRandAccept prevEnergy nextEnergy w1
               in if accepted then (nextState, w2) else (state, w2)))"

fun MetropolisMethod_optimize ::
  "('st \<Rightarrow> real) \<Rightarrow> ('st \<Rightarrow> 'w \<Rightarrow> 'st \<times> 'w) \<Rightarrow> (real \<Rightarrow> real \<Rightarrow> 'w \<Rightarrow> bool \<times> 'w) \<Rightarrow>
     nat \<Rightarrow> 'st \<Rightarrow> 'w \<Rightarrow> 'st \<times> 'w" where
  "MetropolisMethod_optimize fEnergy fAction fRandAccept 0 state w = (state, w)"
| "MetropolisMethod_optimize fEnergy fAction fRandAccept (Suc stepCount) state w =
     (let (state', w') = MetropolisMethod_update fEnergy fAction fRandAccept state w
      in MetropolisMethod_optimize fEnergy fAction fRandAccept stepCount state' w')"

text \<open>The lattices a run of \<open>stepCount\<close> updates passes through, one after each update.\<close>

fun MetropolisMethod_trajectory ::
  "('st \<Rightarrow> real) \<Rightarrow> ('st \<Rightarrow> 'w \<Rightarrow> 'st \<times> 'w) \<Rightarrow> (real \<Rightarrow> real \<Rightarrow> 'w \<Rightarrow> bool \<times> 'w) \<Rightarrow>
     nat \<Rightarrow> 'st \<Rightarrow> 'w \<Rightarrow> 'st list" where
  "MetropolisMethod_trajectory fEnergy fAction fRandAccept 0 state w = []"
| "MetropolisMethod_trajectory fEnergy fAction fRandAccept (Suc stepCount) state w =
     (let (state', w') = MetropolisMethod_update fEnergy fAction fRandAccept state w
      in state' # MetropolisMethod_trajectory fEnergy fAction fRandAccept stepCount state' w')"

section \<open>IsingHeatBathMethod of mathutil.h\<close>

text \<open>
  The four specialisations of \<^verbatim>\<open>neighborSpin\<close>, one equation for each lattice type.
  \<^verbatim>\<open>if constexpr\<close> on the template arguments is an ordinary conditional on \<open>N\<close> and
  \<open>M\<close>; the local \<^verbatim>\<open>spin\<close> starts at \<open>0.0\<close> and the degenerate branch adds to it.
\<close>

fun neighborSpin :: "LatticeType \<Rightarrow> nat \<Rightarrow> nat \<Rightarrow> lattice \<Rightarrow> nat \<Rightarrow> nat \<Rightarrow> real" where
  "neighborSpin Square N M state row col =
     (let spin = 0
      in (if (2 < N \<and> 2 < M) then
           (let up = (if row = 0 then N - 2 else row - 1);
                down = (if row = N - 1 then 1 else row + 1);
                left = (if col = 0 then M - 2 else col - 1);
                right = (if col = M - 1 then 1 else col + 1)
            in isingSpin (State_at state up col) +
               isingSpin (State_at state down col) +
               isingSpin (State_at state row left) +
               isingSpin (State_at state row right))
         else
           (let spin1 =
                  (if 2 < N then
                     (let up = (if row = 0 then N - 2 else row - 1);
                          down = (if row = N - 1 then 1 else row + 1)
                      in spin + (isingSpin (State_at state up col) +
                                 isingSpin (State_at state down col)))
                   else spin);
                spin2 =
                  (if 2 < M then
                     (let left = (if col = 0 then M - 2 else col - 1);
                          right = (if col = M - 1 then 1 else col + 1)
                      in spin1 + (isingSpin (State_at state row left) +
                                  isingSpin (State_at state row right)))
                   else spin1)
            in spin2)))"
| "neighborSpin Triangle N M state row col =
     (let spin = 0
      in (if (2 < N \<and> 2 < M) then
           (let up = (if row = 0 then N - 2 else row - 1);
                down = (if row = N - 1 then 1 else row + 1);
                left = (if col = 0 then M - 2 else col - 1);
                right = (if col = M - 1 then 1 else col + 1)
            in if row mod 2 = 0 then
                 isingSpin (State_at state up col) +
                 isingSpin (State_at state up right) +
                 isingSpin (State_at state row left) +
                 isingSpin (State_at state row right) +
                 isingSpin (State_at state down col) +
                 isingSpin (State_at state down right)
               else
                 isingSpin (State_at state up left) +
                 isingSpin (State_at state up col) +
                 isingSpin (State_at state row left) +
                 isingSpin (State_at state row right) +
                 isingSpin (State_at state down left) +
                 isingSpin (State_at state down col))
         else
           (let spin1 =
                  (if 2 < N then
                     (let up = (if row = 0 then N - 2 else row - 1);
                          down = (if row = N - 1 then 1 else row + 1)
                      in spin + (isingSpin (State_at state up col) +
                                 isingSpin (State_at state down col)))
                   else spin);
                spin2 =
                  (if 2 < M then
                     (let left = (if col = 0 then M - 2 else col - 1);
                          right = (if col = M - 1 then 1 else col + 1)
                      in spin1 + (isingSpin (State_at state row left) +
                                  isingSpin (State_at state row right)))
                   else spin1)
            in spin2)))"
| "neighborSpin Rhombus N M state row col =
     (let spin = 0
      in (if (2 < N \<and> 2 < M) then
           (let up = (if row = 0 then N - 2 else row - 1);
                down = (if row = N - 1 then 1 else row + 1);
                left = (if col = 0 then M - 2 else col - 1);
                right = (if col = M - 1 then 1 else col + 1)
            in if row mod 2 = 0 then
                 isingSpin (State_at state up col) +
                 isingSpin (State_at state up right) +
                 isingSpin (State_at state down col) +
                 isingSpin (State_at state down right)
               else
                 isingSpin (State_at state up left) +
                 isingSpin (State_at state up col) +
                 isingSpin (State_at state down left) +
                 isingSpin (State_at state down col))
         else
           (let spin1 =
                  (if 2 < N then
                     (let up = (if row = 0 then N - 2 else row - 1);
                          down = (if row = N - 1 then 1 else row + 1)
                      in spin + (isingSpin (State_at state up col) +
                                 isingSpin (State_at state down col)))
                   else spin);
                spin2 =
                  (if 2 < M then
                     (let left = (if col = 0 then M - 2 else col - 1);
                          right = (if col = M - 1 then 1 else col + 1)
                      in spin1 + (isingSpin (State_at state row left) +
                                  isingSpin (State_at state row right)))
                   else spin1)
            in spin2)))"
| "neighborSpin Hexagonal N M state row col =
     (let spin = 0
      in (if (2 < N \<and> 2 < M) then
           (let up = (if row = 0 then N - 2 else row - 1);
                down = (if row = N - 1 then 1 else row + 1);
                left = (if col = 0 then M - 2 else col - 1);
                right = (if col = M - 1 then 1 else col + 1)
            in if row mod 4 = 0 then
                 isingSpin (State_at state up col) +
                 isingSpin (State_at state down col) +
                 isingSpin (State_at state down right)
               else if row mod 4 = 1 then
                 isingSpin (State_at state up right) +
                 isingSpin (State_at state up col) +
                 isingSpin (State_at state down col)
               else if row mod 4 = 2 then
                 isingSpin (State_at state up col) +
                 isingSpin (State_at state down left) +
                 isingSpin (State_at state down col)
               else
                 isingSpin (State_at state up col) +
                 isingSpin (State_at state up right) +
                 isingSpin (State_at state down col))
         else
           (let spin1 =
                  (if 2 < N then
                     (let up = (if row = 0 then N - 2 else row - 1);
                          down = (if row = N - 1 then 1 else row + 1)
                      in spin + (isingSpin (State_at state up col) +
                                 isingSpin (State_at state down col)))
                   else spin);
                spin2 =
                  (if 2 < M then
                     (let left = (if col = 0 then M - 2 else col - 1);
                          right = (if col = M - 1 then 1 else col + 1)
                      in spin1 + (isingSpin (State_at state row left) +
                                  isingSpin (State_at state row right)))
                   else spin1)
            in spin2)))"

text \<open>
  Lines 354 to 360 of \<^verbatim>\<open>IsingHeatBathMethod::update\<close>: the write of the new value and
  the two \<^verbatim>\<open>if\<close>/\<^verbatim>\<open>else if\<close> chains under the comment "periodic boundary condition".
\<close>

definition IsingHeatBathMethod_write ::
  "nat \<Rightarrow> nat \<Rightarrow> nat \<Rightarrow> nat \<Rightarrow> bool \<Rightarrow> lattice \<Rightarrow> lattice" where
  "IsingHeatBathMethod_write N M row col val state =
     (let s1 = State_set state row col val;
          s2 = (if row = 0 then State_set s1 (N - 1) col val
                else if row = N - 1 then State_set s1 0 col val
                else s1);
          s3 = (if col = 0 then State_set s2 row (M - 1) val
                else if col = M - 1 then State_set s2 row 0 val
                else s2)
      in s3)"

text \<open>
  The argument of \<^verbatim>\<open>std::tanh\<close> on line 351, \<^verbatim>\<open>ising->param.J / ising->kbT() * spin\<close>:
  the \<^verbatim>\<open>int\<close> is converted, divided by the product and multiplied by the neighbour sum.
\<close>

definition heatBath_argument :: "Parameter \<Rightarrow> real \<Rightarrow> double" where
  "heatBath_argument p spin =
     d_mul (d_div (Fin (real_of_int (sint (param_J p)))) (kbT p)) (Fin spin)"

text \<open>
  The right-hand side of the comparison on line 351,
  \<^verbatim>\<open>0.5 * (std::tanh(ising->param.J / ising->kbT() * spin) + 1.0)\<close>.
\<close>

definition heatBath_probability :: "cmath \<Rightarrow> Parameter \<Rightarrow> real \<Rightarrow> double" where
  "heatBath_probability C p spin =
     d_mul (Fin (1 / 2)) (d_add (std_tanh C (heatBath_argument p spin)) (Fin 1))"

text \<open>The update once \<open>row\<close>, \<open>col\<close> and the uniform number \<open>u\<close> have been drawn.\<close>

definition IsingHeatBathMethod_update_at ::
  "cmath \<Rightarrow> LatticeType \<Rightarrow> Parameter \<Rightarrow> nat \<Rightarrow> nat \<Rightarrow> nat \<Rightarrow> nat \<Rightarrow> real \<Rightarrow> lattice \<Rightarrow> lattice" where
  "IsingHeatBathMethod_update_at C lat p N M row col u state =
     (let spin = neighborSpin lat N M state row col;
          val = d_less (Fin u) (heatBath_probability C p spin)
      in IsingHeatBathMethod_write N M row col val state)"

text \<open>
  The whole member function: \<^verbatim>\<open>randRow(mt)\<close>, \<^verbatim>\<open>randCol(mt)\<close> and \<^verbatim>\<open>rand01(mt)\<close> are
  drawn in this order from the engine of \<^verbatim>\<open>IsingHeatBathMethod<lat>\<close>.
\<close>

definition IsingHeatBathMethod_update ::
  "'g stdrandom \<Rightarrow> cmath \<Rightarrow> LatticeType \<Rightarrow> Parameter \<Rightarrow> nat \<Rightarrow> nat \<Rightarrow> lattice \<Rightarrow> 'g statics \<Rightarrow>
     lattice \<times> 'g statics" where
  "IsingHeatBathMethod_update L C lat p N M state w =
     (let (row, g1) = uniform_int L 0 (N - 1) (IsingHeatBathMethod_mt w lat);
          (col, g2) = uniform_int L 0 (M - 1) g1;
          (u, g3) = uniform_real L 0 1 g2
      in (IsingHeatBathMethod_update_at C lat p N M row col u state,
          w\<lparr>IsingHeatBathMethod_mt := (IsingHeatBathMethod_mt w)(lat := g3)\<rparr>))"

fun IsingHeatBathMethod_optimize ::
  "'g stdrandom \<Rightarrow> cmath \<Rightarrow> LatticeType \<Rightarrow> Parameter \<Rightarrow> nat \<Rightarrow> nat \<Rightarrow> nat \<Rightarrow> lattice \<Rightarrow>
     'g statics \<Rightarrow> lattice \<times> 'g statics" where
  "IsingHeatBathMethod_optimize L C lat p N M 0 state w = (state, w)"
| "IsingHeatBathMethod_optimize L C lat p N M (Suc stepCount) state w =
     (let (state', w') = IsingHeatBathMethod_update L C lat p N M state w
      in IsingHeatBathMethod_optimize L C lat p N M stepCount state' w')"

fun IsingHeatBathMethod_trajectory ::
  "'g stdrandom \<Rightarrow> cmath \<Rightarrow> LatticeType \<Rightarrow> Parameter \<Rightarrow> nat \<Rightarrow> nat \<Rightarrow> nat \<Rightarrow> lattice \<Rightarrow>
     'g statics \<Rightarrow> lattice list" where
  "IsingHeatBathMethod_trajectory L C lat p N M 0 state w = []"
| "IsingHeatBathMethod_trajectory L C lat p N M (Suc stepCount) state w =
     (let (state', w') = IsingHeatBathMethod_update L C lat p N M state w
      in state' # IsingHeatBathMethod_trajectory L C lat p N M stepCount state' w')"

section \<open>A small generator for concrete runs\<close>

text \<open>
  An instance of the library parameter used where a statement is evaluated on concrete
  data: the engine is a counter, seeding sets the counter, every draw reads it and
  counts one up.
\<close>

definition counter_random :: "nat stdrandom" where
  "counter_random =
     \<lparr>mt_seed = unat,
      uniform_int = (\<lambda>a b g. (a + g mod (b - a + 1), g + 1)),
      uniform_real = (\<lambda>a b g. (a + (b - a) * real (g mod 4) / 4, g + 1))\<rparr>"

definition counter_statics :: "nat \<Rightarrow> nat statics" where
  "counter_statics g = \<lparr>State_mt = (\<lambda>_. g), IsingModel_mt = g, IsingHeatBathMethod_mt = (\<lambda>_. g)\<rparr>"

text \<open>
  An instance of the mathematical library for concrete runs: both functions return the
  correctly rounded value.
\<close>

definition cmath_rounded :: cmath where
  "cmath_rounded =
     \<lparr>std_tanh = (\<lambda>x. case x of Fin a \<Rightarrow> d_round (tanh a) | PInf \<Rightarrow> Fin 1
                               | NInf \<Rightarrow> Fin (- 1) | NaN \<Rightarrow> NaN),
      std_exp = (\<lambda>x. case x of Fin a \<Rightarrow> d_round (exp a) | PInf \<Rightarrow> PInf
                              | NInf \<Rightarrow> Fin 0 | NaN \<Rightarrow> NaN)\<rparr>"

section \<open>Fixing the seed of every stream\<close>

text \<open>
  The three calls \<^verbatim>\<open>state.setSeed(seed); ising.setSeed(seed); hbMethod.setSeed(seed);\<close>
  with which the driver \<^verbatim>\<open>magnetizationOfSpinConfigurationHeatBathFixedSeed\<close> of
  isingspinconfig.h starts every run.
\<close>

definition setSeed_all ::
  "'g stdrandom \<Rightarrow> nat \<Rightarrow> nat \<Rightarrow> LatticeType \<Rightarrow> 32 word \<Rightarrow> 'g statics \<Rightarrow> 'g statics" where
  "setSeed_all L N M lat seed w =
     IsingHeatBathMethod_setSeed L lat seed (IsingModel_setSeed L seed (State_setSeed L N M seed w))"

section \<open>The wording of the specification\<close>

text \<open>
  The fold of the specification: the previous index of \<open>0\<close> is \<open>n - 2\<close> for an axis of \<open>n\<close> sites, the next
  index of the last one is \<open>1\<close>, every other index moves by one.
\<close>

definition fold_prev :: "nat \<Rightarrow> nat \<Rightarrow> nat" where
  "fold_prev n i = (if i = 0 then n - 2 else i - 1)"

definition fold_next :: "nat \<Rightarrow> nat \<Rightarrow> nat" where
  "fold_next n i = (if i = n - 1 then 1 else i + 1)"



section \<open>Rounding\<close>

text \<open>
  The rounded value never crosses a power of two, since every power of two in range is
  a multiple of the quantum of the numbers below and above it.
\<close>

lemma round_even_le: "y \<le> of_int K \<Longrightarrow> round_even y \<le> K"
proof -
  assume a: "y \<le> of_int K"
  have f: "\<lfloor>y\<rfloor> \<le> K" using a by (simp add: floor_le_iff) 
  show ?thesis
  proof (cases "\<lfloor>y\<rfloor> = K")
    case True
    then have "y = of_int K" using a by linarith
    then show ?thesis by (simp add: round_even_def)
  next
    case False
    with f have "\<lfloor>y\<rfloor> + 1 \<le> K" by simp
    then show ?thesis by (auto simp: round_even_def Let_def)
  qed
qed

lemma round_even_ge: "of_int K \<le> y \<Longrightarrow> K \<le> round_even y"
proof -
  assume a: "of_int K \<le> y"
  then have "K \<le> \<lfloor>y\<rfloor>" by (simp add: le_floor_iff)
  then show ?thesis by (auto simp: round_even_def Let_def)
qed

lemma ulp_pos: "0 < ulp x"
  by (simp add: ulp_def)

lemma grid_le:
  assumes "x \<le> of_int K * ulp x"
  shows "of_int (round_even (x / ulp x)) * ulp x \<le> of_int K * ulp x"
proof -
  have "x / ulp x \<le> of_int K" using assms ulp_pos [of x] by (simp add: pos_divide_le_eq)
  then have "round_even (x / ulp x) \<le> K" by (rule round_even_le)
  then have "(of_int (round_even (x / ulp x)) :: real) \<le> of_int K" by simp
  then show ?thesis using ulp_pos [of x] by (simp add: mult_le_cancel_right)
qed

lemma grid_ge:
  assumes "of_int K * ulp x \<le> x"
  shows "of_int K * ulp x \<le> of_int (round_even (x / ulp x)) * ulp x"
proof -
  have "of_int K \<le> x / ulp x" using assms ulp_pos [of x] by (simp add: pos_le_divide_eq)
  then have "K \<le> round_even (x / ulp x)" by (rule round_even_ge)
  then have "(of_int K :: real) \<le> of_int (round_even (x / ulp x))" by simp
  then show ?thesis using ulp_pos [of x] by (simp add: mult_le_cancel_right)
qed

lemma powr2_int: "(2::real) powr (of_int k) = 2 powi k"
  by (simp add: powr_real_of_int power_int_def power_one_over inverse_eq_divide)

lemma binade_le:
  assumes "x \<noteq> 0" "\<bar>x\<bar> \<le> 2 powi k" "- 1022 \<le> k"
  shows "binade x \<le> k"
proof -
  have "log 2 \<bar>x\<bar> \<le> of_int k"
  proof -
    have "\<bar>x\<bar> \<le> 2 powr (of_int k)" using assms(2) by (simp only: powr2_int)
    then show ?thesis using assms(1) by (simp add: log_le_iff)
  qed
  then have "\<lfloor>log 2 \<bar>x\<bar>\<rfloor> \<le> k" by (simp add: floor_le_iff)
  then show ?thesis using assms(3) by (simp add: binade_def)
qed

lemma binade_ge:
  assumes "2 powi k \<le> \<bar>x\<bar>" "- 1022 \<le> k"
  shows "binade x = \<lfloor>log 2 \<bar>x\<bar>\<rfloor>" and "k \<le> binade x" and "2 powi (binade x) \<le> \<bar>x\<bar>"
proof -
  have pos: "0 < \<bar>x\<bar>" using assms(1) by (smt (verit) zero_less_power_int)
  have "2 powr (of_int k) \<le> \<bar>x\<bar>" using assms(1) by (simp only: powr2_int)
  then have "of_int k \<le> log 2 \<bar>x\<bar>" using pos by (simp add: le_log_iff)
  then have k: "k \<le> \<lfloor>log 2 \<bar>x\<bar>\<rfloor>" by (simp add: le_floor_iff)
  then show b: "binade x = \<lfloor>log 2 \<bar>x\<bar>\<rfloor>" using assms(2) by (simp add: binade_def)
  show "k \<le> binade x" using k b by simp
  have "2 powr (of_int \<lfloor>log 2 \<bar>x\<bar>\<rfloor>) \<le> \<bar>x\<bar>"
    using floor_log_eq_powr_iff [of "\<bar>x\<bar>" 2 "\<lfloor>log 2 \<bar>x\<bar>\<rfloor>"] pos by simp
  then show "2 powi (binade x) \<le> \<bar>x\<bar>" by (simp only: b powr2_int)
qed


lemma pow2_ulp_multiple:
  assumes "binade x \<le> k + 52"
  shows "2 ^ nat (k - binade x + 52) * ulp x = 2 powi k"
proof -
  have e: "(k - binade x + 52) + (binade x - 52) = k" by simp
  have "(2::real) ^ nat (k - binade x + 52) = 2 powi (k - binade x + 52)"
    using assms by (simp only: power_int_def) simp
  then have "2 ^ nat (k - binade x + 52) * ulp x =
      2 powi (k - binade x + 52) * 2 powi (binade x - 52)"
    by (simp only: ulp_def)
  also have "\<dots> = 2 powi ((k - binade x + 52) + (binade x - 52))"
    by (rule power_int_add [symmetric]) simp
  finally show ?thesis by (simp only: e)
qed

lemma grid_round_le_pow2:
  assumes "x \<noteq> 0" "\<bar>x\<bar> \<le> 2 powi k" "- 1022 \<le> k"
  shows "grid_round x \<le> 2 powi k" and "- (2 powi k) \<le> grid_round x"
proof -
  have b: "binade x \<le> k + 52" using binade_le [OF assms] by simp
  note m = pow2_ulp_multiple [OF b]
  have "x \<le> of_int (2 ^ nat (k - binade x + 52)) * ulp x" using assms(2) m by simp
  from grid_le [OF this] m show "grid_round x \<le> 2 powi k" by (simp add: grid_round_def)
  have "of_int (- (2 ^ nat (k - binade x + 52))) * ulp x \<le> x" using assms(2) m by simp
  from grid_ge [OF this] m show "- (2 powi k) \<le> grid_round x"
    by (simp add: grid_round_def)
qed

lemma grid_round_sign:
  "0 \<le> x \<Longrightarrow> 0 \<le> grid_round x" "x \<le> 0 \<Longrightarrow> grid_round x \<le> 0"
  using grid_ge [of 0 x] grid_le [of x 0] by (simp_all add: grid_round_def)

lemma grid_round_ge_pow2:
  assumes "2 powi k \<le> \<bar>x\<bar>" "- 1022 \<le> k"
  shows "0 < x \<Longrightarrow> 2 powi k \<le> grid_round x" and "x < 0 \<Longrightarrow> grid_round x \<le> - (2 powi k)"
proof -
  note bg = binade_ge [OF assms]
  have b: "binade x \<le> binade x + 52" by simp
  note m = pow2_ulp_multiple [OF b]
  have kb: "(2::real) powi k \<le> 2 powi (binade x)"
    using bg(2) by (simp add: power_int_increasing)
  {
    assume "0 < x"
    then have "of_int (2 ^ nat (binade x - binade x + 52)) * ulp x \<le> x" using bg(3) m by simp
    from grid_ge [OF this] m have "2 powi (binade x) \<le> grid_round x"
      by (simp add: grid_round_def)
    with kb show "2 powi k \<le> grid_round x" by simp
  }
  {
    assume "x < 0"
    then have "x \<le> of_int (- (2 ^ nat (binade x - binade x + 52))) * ulp x" using bg(3) m by simp
    from grid_le [OF this] m have "grid_round x \<le> - (2 powi (binade x))"
      by (simp add: grid_round_def)
    with kb show "grid_round x \<le> - (2 powi k)" by simp
  }
qed

lemma d_round_within:
  assumes "\<bar>x\<bar> \<le> 2 powi k" "- 1022 \<le> k" "k \<le> 1023"
  shows "\<exists>r. d_round x = Fin r \<and> \<bar>r\<bar> \<le> 2 powi k \<and> (0 \<le> x \<longrightarrow> 0 \<le> r) \<and> (x \<le> 0 \<longrightarrow> r \<le> 0)"
proof (cases "x = 0")
  case True
  then show ?thesis by (simp add: d_round_def)
next
  case False
  from grid_round_le_pow2 [OF False assms(1,2)]
  have a: "\<bar>grid_round x\<bar> \<le> 2 powi k" by simp
  have "(2::real) powi k < 2 powi 1024"
    by (rule power_int_strict_increasing) (use assms(3) in simp_all)
  with a have "\<not> 2 powi 1024 \<le> \<bar>grid_round x\<bar>" by simp
  with False a grid_round_sign [of x] show ?thesis
    by (simp add: d_round_def)
qed

lemma d_round_between_pos:
  assumes "2 powi j \<le> x" "x \<le> 2 powi k" "- 1022 \<le> j" "- 1022 \<le> k" "k \<le> 1023"
  shows "\<exists>r. d_round x = Fin r \<and> 2 powi j \<le> r \<and> r \<le> 2 powi k"
proof -
  have pos: "0 < x" using assms(1) by (smt (verit) zero_less_power_int)
  from d_round_within [of x k] assms pos obtain r where
    r: "d_round x = Fin r" "\<bar>r\<bar> \<le> 2 powi k" by auto
  have "r = grid_round x" using r(1) pos by (simp add: d_round_def split: if_splits)
  moreover have "2 powi j \<le> grid_round x"
    using grid_round_ge_pow2(1) [of j x] assms(1,3) pos by simp
  ultimately show ?thesis using r by auto
qed

lemma d_round_between_neg:
  assumes "x \<le> - (2 powi j)" "- (2 powi k) \<le> x" "- 1022 \<le> j" "- 1022 \<le> k" "k \<le> 1023"
  shows "\<exists>r. d_round x = Fin r \<and> - (2 powi k) \<le> r \<and> r \<le> - (2 powi j)"
proof -
  have neg: "x < 0" using assms(1) by (smt (verit) zero_less_power_int)
  from d_round_within [of x k] assms neg obtain r where
    r: "d_round x = Fin r" "\<bar>r\<bar> \<le> 2 powi k" by auto
  have "r = grid_round x" using r(1) neg by (simp add: d_round_def split: if_splits)
  moreover have "grid_round x \<le> - (2 powi j)"
    using grid_round_ge_pow2(2) [of j x] assms(1,3) neg by simp
  ultimately show ?thesis using r by auto
qed

lemma d_round_pow2: "- 1022 \<le> k \<Longrightarrow> k \<le> 1023 \<Longrightarrow> d_round (2 powi k) = Fin (2 powi k)"
  using d_round_between_pos [of k "2 powi k" k] by auto

lemma d_round_neg_pow2:
  "- 1022 \<le> k \<Longrightarrow> k \<le> 1023 \<Longrightarrow> d_round (- (2 powi k)) = Fin (- (2 powi k))"
  using d_round_between_neg [of "- (2 powi k)" k k] by auto

lemma d_round_overflow: "2 powi 1024 \<le> x \<Longrightarrow> d_round x = PInf"
proof -
  assume a: "2 powi 1024 \<le> x"
  then have pos: "0 < x" by (smt (verit) zero_less_power_int)
  from grid_round_ge_pow2(1) [of 1024 x] a pos have "2 powi 1024 \<le> grid_round x" by simp
  then have "2 powi 1024 \<le> \<bar>grid_round x\<bar>" by simp
  with pos show ?thesis by (simp add: d_round_def)
qed

section \<open>Energy\<close>

lemma fold_add_upt:
  "fold (\<lambda>i e. e + f i) [0..<n] (a::real) = a + (\<Sum>i<n. f i)"
  by (induction n) simp_all

lemma fold_fold_add_upt:
  "fold (\<lambda>r. fold (\<lambda>c e. e + f r c) [0..<m]) [0..<n] (a::real) = a + (\<Sum>r<n. \<Sum>c<m. f r c)"
  by (induction n) (simp_all add: fold_add_upt)

lemma sint_minus_32:
  fixes J :: "32 word"
  assumes "sint J \<noteq> - (2 ^ 31)"
  shows "sint (- J) = - sint J"
proof -
  have "- (2 ^ 31) \<le> sint J" and "sint J < 2 ^ 31"
    using sint_ge [of J] sint_lt [of J] by simp_all
  with assms have "- (2 ^ 31) \<le> - sint J" and "- sint J < 2 ^ 31" by simp_all
  then have "signed_take_bit 31 (- sint J) = - sint J"
    by (simp add: signed_take_bit_int_eq_self)
  then show ?thesis by (simp add: sint_word_minus)
qed

text \<open>
  C1 (as amended). For \<open>J\<close> above the least 32-bit value, and a lattice small enough for
  every partial sum to be an integer of magnitude at most \<open>2 ^ 53\<close>, the energy is \<open>-J\<close>
  times the sum, over the sites \<open>(r, c)\<close> with \<open>r < N - 1\<close> and \<open>c < M - 1\<close>, of the product
  of the site's spin with its right neighbour's plus the product with its lower
  neighbour's: each such pair once, no wraparound pair. The rightward pairs inside the
  last row and the downward pairs inside the last column are not part of the sum.
\<close>

theorem energy_inner_pairs:
  assumes "sint (param_J p) \<noteq> - (2 ^ 31)"
    and "2 * \<bar>sint (param_J p)\<bar> * int ((N - 1) * (M - 1)) \<le> 2 ^ 53"
  shows "energy p N M state =
     - real_of_int (sint (param_J p)) *
       (\<Sum>r<N - 1. \<Sum>c<M - 1.
          isingSpin (State_at state r c) * isingSpin (State_at state r (c + 1)) +
          isingSpin (State_at state r c) * isingSpin (State_at state (r + 1) c))"
proof -
  have J: "real_of_int (sint (- param_J p)) = - real_of_int (sint (param_J p))"
    using sint_minus_32 [OF assms(1)] by simp
  have "energy p N M state =
      (\<Sum>r<N - 1. \<Sum>c<M - 1. real_of_int (sint (- param_J p)) *
          (isingSpin (State_at state r c) *
            (isingSpin (State_at state r (c + 1)) + isingSpin (State_at state (r + 1) c))))"
    unfolding energy_def fold_fold_add_upt by simp
  also have "\<dots> = real_of_int (sint (- param_J p)) *
       (\<Sum>r<N - 1. \<Sum>c<M - 1.
          isingSpin (State_at state r c) * isingSpin (State_at state r (c + 1)) +
          isingSpin (State_at state r c) * isingSpin (State_at state (r + 1) c))"
    by (simp add: sum_distrib_left distrib_left)
  finally show ?thesis by (simp only: J)
qed

theorem energy_inner_pairs_witness:
  "sint (param_J (Parameter_default\<lparr>param_J := 3\<rparr>)) \<noteq> - (2 ^ 31) \<and>
   2 * \<bar>sint (param_J (Parameter_default\<lparr>param_J := 3\<rparr>))\<bar> * int ((3 - 1) * (3 - 1)) \<le> 2 ^ 53 \<and>
   energy (Parameter_default\<lparr>param_J := 3\<rparr>) 3 3
     [[True, False, True], [True, True, False], [False, True, True]] = 6"
proof -
  have a: "sint (param_J (Parameter_default\<lparr>param_J := 3\<rparr>)) \<noteq> - (2 ^ 31)"
    by (simp add: Parameter_default_def)
  have b: "2 * \<bar>sint (param_J (Parameter_default\<lparr>param_J := 3\<rparr>))\<bar> * int ((3 - 1) * (3 - 1)) \<le> 2 ^ 53"
    by (simp add: Parameter_default_def)
  have s: "{..<(2::nat)} = {0, 1}" by auto
  from energy_inner_pairs [OF a b, of "[[True, False, True], [True, True, False], [False, True, True]]"]
  have "energy (Parameter_default\<lparr>param_J := 3\<rparr>) 3 3
     [[True, False, True], [True, True, False], [False, True, True]] = 6"
    by (simp add: Parameter_default_def State_at_def isingSpin_def s)
  with a b show ?thesis by blast
qed

text \<open>
  On the \<open>2 \<times> 2\<close> lattice with every spin up and \<open>J = 1\<close> the grid has two rightward and
  two downward pairs, so the sum over all of them is \<open>-4\<close>; the loops visit site
  \<open>(0, 0)\<close> only and return \<open>-2\<close>.
\<close>

theorem energy_all_pairs_counterexample:
  "energy Parameter_default 2 2 [[True, True], [True, True]] = - 2 \<and>
   energy_all_pairs Parameter_default 2 2 [[True, True], [True, True]] = - 4 \<and>
   energy Parameter_default 2 2 [[True, True], [True, True]] \<noteq>
   energy_all_pairs Parameter_default 2 2 [[True, True], [True, True]]"
  by (simp add: energy_def energy_all_pairs_def Parameter_default_def State_at_def isingSpin_def
      upt_rec)

section \<open>Cells of the lattice\<close>






section \<open>Concrete lattices\<close>

lemma exp_minus_le: "0 \<le> x \<Longrightarrow> exp (- x) \<le> 1 / (1 + (x::real))"
proof -
  assume "0 \<le> x"
  have "1 + x \<le> exp x" by (rule exp_ge_add_one_self)
  moreover have "0 < 1 + x" using \<open>0 \<le> x\<close> by simp
  ultimately have "1 / exp x \<le> 1 / (1 + x)" by (simp add: frac_le)
  then show ?thesis by (simp add: exp_minus inverse_eq_divide)
qed

lemma upt_0_3: "[0..<3] = [0, 1, 2]"
  by (simp add: upt_rec)

lemma State_init_4_4:
  "State_init 4 4 b = [[b, b, b, b], [b, b, b, b], [b, b, b, b], [b, b, b, b]]"
  by (simp add: State_init_def numeral_eq_Suc)

lemma energy_allUp4: "energy Parameter_default 4 4 (State_init 4 4 True) = - 18"
  by (simp add: energy_def Parameter_default_def State_init_4_4 State_at_def isingSpin_def
      upt_0_3)

lemma energy_oneDown4:
  "energy Parameter_default 4 4
     [[True, True, True, True], [True, True, False, True],
      [True, True, True, True], [True, True, True, True]] = - 10"
  by (simp add: energy_def Parameter_default_def State_at_def isingSpin_def upt_0_3)

lemma magnetization_allUp2: "magnetization 2 2 [[True, True], [True, True]] = 4"
  by (simp add: magnetization_def State_at_def isingSpin_def upt_rec)

section \<open>Concrete values of the arithmetic\<close>

lemma d_round_values:
  "d_round 0 = Fin 0" "d_round 1 = Fin 1" "d_round (1 / 2) = Fin (1 / 2)"
  "d_round (- 4) = Fin (- 4)" "d_round (- 8) = Fin (- 8)"
  using d_round_pow2 [of 0] d_round_pow2 [of "- 1"] d_round_neg_pow2 [of 2] d_round_neg_pow2 [of 3]
  by (simp_all add: d_round_def)

lemma kbT_unit: "kbT (Parameter_default\<lparr>param_T := 1\<rparr>) = Fin 1"
  by (simp add: kbT_def Parameter_default_def d_round_values)

lemma kbT_default: "\<exists>t. kbT Parameter_default = Fin t \<and> 1 / 16 \<le> t \<and> t \<le> 1 / 8"
proof -
  from d_round_between_pos [of "- 4" "1 / 10" "- 3"]
  obtain t0 where t0: "d_round (1 / 10) = Fin t0" "1 / 16 \<le> t0" "t0 \<le> 1 / 8" by auto
  from d_round_between_pos [of "- 4" t0 "- 3"] t0
  obtain t where "d_round t0 = Fin t" "1 / 16 \<le> t" "t \<le> 1 / 8" by auto
  with t0 show ?thesis
    by (simp add: kbT_def Parameter_default_def d_round_values)
qed


lemma cmath_rounded_tanh_range:
  assumes "x \<noteq> NaN"
  shows "tanh_range (std_tanh cmath_rounded x)"
proof (cases x)
  case (Fin a)
  have "\<bar>tanh a\<bar> \<le> 2 powi 0"
    using tanh_real_gt_neg1 [of a] tanh_real_lt_1 [of a] by simp
  from d_round_within [OF this] obtain r where "d_round (tanh a) = Fin r" "\<bar>r\<bar> \<le> 1" by auto
  then have "- 1 \<le> r" and "r \<le> 1" and "std_tanh cmath_rounded x = Fin r"
    using Fin by (simp_all add: cmath_rounded_def abs_le_iff)
  then show ?thesis by (simp add: tanh_range_def)
qed (use assms in \<open>simp_all add: cmath_rounded_def tanh_range_def\<close>)

section \<open>Neighbour sums\<close>

text \<open>
  C5. On a lattice with \<open>N > 2\<close> and \<open>M > 2\<close> each of the four \<open>neighborSpin\<close> functions
  reads its neighbours at the folded indices: the previous row of row \<open>0\<close> is \<open>N - 2\<close>,
  not \<open>N - 1\<close>; the next row of row \<open>N - 1\<close> is \<open>1\<close>; every other row uses \<open>row - 1\<close> and
  \<open>row + 1\<close>; the same for columns with \<open>M\<close>.
\<close>

theorem neighborSpin_fold_indices:
  assumes "2 < N" and "2 < M"
  shows "fold_prev N 0 = N - 2 \<and> fold_prev N 0 \<noteq> N - 1 \<and> fold_next N (N - 1) = 1 \<and>
         fold_prev M 0 = M - 2 \<and> fold_prev M 0 \<noteq> M - 1 \<and> fold_next M (M - 1) = 1 \<and>
         fold_prev N row = (if row = 0 then N - 2 else row - 1) \<and>
         fold_next N row = (if row = N - 1 then 1 else row + 1) \<and>
         fold_prev M col = (if col = 0 then M - 2 else col - 1) \<and>
         fold_next M col = (if col = M - 1 then 1 else col + 1) \<and>
         neighborSpin Square N M state row col =
           isingSpin (State_at state (fold_prev N row) col) +
           isingSpin (State_at state (fold_next N row) col) +
           isingSpin (State_at state row (fold_prev M col)) +
           isingSpin (State_at state row (fold_next M col)) \<and>
         neighborSpin Triangle N M state row col =
           (if row mod 2 = 0 then
              isingSpin (State_at state (fold_prev N row) col) +
              isingSpin (State_at state (fold_prev N row) (fold_next M col)) +
              isingSpin (State_at state row (fold_prev M col)) +
              isingSpin (State_at state row (fold_next M col)) +
              isingSpin (State_at state (fold_next N row) col) +
              isingSpin (State_at state (fold_next N row) (fold_next M col))
            else
              isingSpin (State_at state (fold_prev N row) (fold_prev M col)) +
              isingSpin (State_at state (fold_prev N row) col) +
              isingSpin (State_at state row (fold_prev M col)) +
              isingSpin (State_at state row (fold_next M col)) +
              isingSpin (State_at state (fold_next N row) (fold_prev M col)) +
              isingSpin (State_at state (fold_next N row) col)) \<and>
         neighborSpin Rhombus N M state row col =
           (if row mod 2 = 0 then
              isingSpin (State_at state (fold_prev N row) col) +
              isingSpin (State_at state (fold_prev N row) (fold_next M col)) +
              isingSpin (State_at state (fold_next N row) col) +
              isingSpin (State_at state (fold_next N row) (fold_next M col))
            else
              isingSpin (State_at state (fold_prev N row) (fold_prev M col)) +
              isingSpin (State_at state (fold_prev N row) col) +
              isingSpin (State_at state (fold_next N row) (fold_prev M col)) +
              isingSpin (State_at state (fold_next N row) col)) \<and>
         neighborSpin Hexagonal N M state row col =
           (if row mod 4 = 0 then
              isingSpin (State_at state (fold_prev N row) col) +
              isingSpin (State_at state (fold_next N row) col) +
              isingSpin (State_at state (fold_next N row) (fold_next M col))
            else if row mod 4 = 1 then
              isingSpin (State_at state (fold_prev N row) (fold_next M col)) +
              isingSpin (State_at state (fold_prev N row) col) +
              isingSpin (State_at state (fold_next N row) col)
            else if row mod 4 = 2 then
              isingSpin (State_at state (fold_prev N row) col) +
              isingSpin (State_at state (fold_next N row) (fold_prev M col)) +
              isingSpin (State_at state (fold_next N row) col)
            else
              isingSpin (State_at state (fold_prev N row) col) +
              isingSpin (State_at state (fold_prev N row) (fold_next M col)) +
              isingSpin (State_at state (fold_next N row) col))"
proof -
  have idx: "fold_prev N 0 = N - 2" "fold_prev N 0 \<noteq> N - 1" "fold_next N (N - 1) = 1"
       "fold_prev M 0 = M - 2" "fold_prev M 0 \<noteq> M - 1" "fold_next M (M - 1) = 1"
    using assms by (simp_all add: fold_prev_def fold_next_def)
  have sq: "neighborSpin Square N M state row col =
           isingSpin (State_at state (fold_prev N row) col) +
           isingSpin (State_at state (fold_next N row) col) +
           isingSpin (State_at state row (fold_prev M col)) +
           isingSpin (State_at state row (fold_next M col))"
    using assms by (simp add: fold_prev_def fold_next_def Let_def)
  have tri: "neighborSpin Triangle N M state row col =
           (if row mod 2 = 0 then
              isingSpin (State_at state (fold_prev N row) col) +
              isingSpin (State_at state (fold_prev N row) (fold_next M col)) +
              isingSpin (State_at state row (fold_prev M col)) +
              isingSpin (State_at state row (fold_next M col)) +
              isingSpin (State_at state (fold_next N row) col) +
              isingSpin (State_at state (fold_next N row) (fold_next M col))
            else
              isingSpin (State_at state (fold_prev N row) (fold_prev M col)) +
              isingSpin (State_at state (fold_prev N row) col) +
              isingSpin (State_at state row (fold_prev M col)) +
              isingSpin (State_at state row (fold_next M col)) +
              isingSpin (State_at state (fold_next N row) (fold_prev M col)) +
              isingSpin (State_at state (fold_next N row) col))"
    using assms by (simp add: fold_prev_def fold_next_def Let_def)
  have rh: "neighborSpin Rhombus N M state row col =
           (if row mod 2 = 0 then
              isingSpin (State_at state (fold_prev N row) col) +
              isingSpin (State_at state (fold_prev N row) (fold_next M col)) +
              isingSpin (State_at state (fold_next N row) col) +
              isingSpin (State_at state (fold_next N row) (fold_next M col))
            else
              isingSpin (State_at state (fold_prev N row) (fold_prev M col)) +
              isingSpin (State_at state (fold_prev N row) col) +
              isingSpin (State_at state (fold_next N row) (fold_prev M col)) +
              isingSpin (State_at state (fold_next N row) col))"
    using assms by (simp add: fold_prev_def fold_next_def Let_def)
  have hx: "neighborSpin Hexagonal N M state row col =
           (if row mod 4 = 0 then
              isingSpin (State_at state (fold_prev N row) col) +
              isingSpin (State_at state (fold_next N row) col) +
              isingSpin (State_at state (fold_next N row) (fold_next M col))
            else if row mod 4 = 1 then
              isingSpin (State_at state (fold_prev N row) (fold_next M col)) +
              isingSpin (State_at state (fold_prev N row) col) +
              isingSpin (State_at state (fold_next N row) col)
            else if row mod 4 = 2 then
              isingSpin (State_at state (fold_prev N row) col) +
              isingSpin (State_at state (fold_next N row) (fold_prev M col)) +
              isingSpin (State_at state (fold_next N row) col)
            else
              isingSpin (State_at state (fold_prev N row) col) +
              isingSpin (State_at state (fold_prev N row) (fold_next M col)) +
              isingSpin (State_at state (fold_next N row) col))"
    using assms by (simp add: fold_prev_def fold_next_def Let_def)
  have defs: "fold_prev N row = (if row = 0 then N - 2 else row - 1)"
       "fold_next N row = (if row = N - 1 then 1 else row + 1)"
       "fold_prev M col = (if col = 0 then M - 2 else col - 1)"
       "fold_next M col = (if col = M - 1 then 1 else col + 1)"
    by (simp_all add: fold_prev_def fold_next_def)
  from idx defs sq tri rh hx show ?thesis by blast
qed

theorem neighborSpin_fold_indices_witness:
  "(2::nat) < 4 \<and> (2::nat) < 5 \<and>
   neighborSpin Square 4 5
     [[True, True, False, True, True],
      [False, False, False, False, True],
      [True, True, True, True, False],
      [True, True, False, True, True]] 0 4 = 2 \<and>
   neighborSpin Hexagonal 4 5
     [[True, True, False, True, True],
      [False, False, False, False, True],
      [True, True, True, True, False],
      [True, True, False, True, True]] 3 0 = 1"
  using neighborSpin_fold_indices [of 4 5 0 4
     "[[True, True, False, True, True],
       [False, False, False, False, True],
       [True, True, True, True, False],
       [True, True, False, True, True]]"]
    neighborSpin_fold_indices [of 4 5 3 0
     "[[True, True, False, True, True],
       [False, False, False, False, True],
       [True, True, True, True, False],
       [True, True, False, True, True]]"]
  by (simp add: fold_prev_def fold_next_def State_at_def isingSpin_def)

text \<open>
  C10. When \<open>N \<le> 2\<close> or \<open>M \<le> 2\<close> the four \<open>neighborSpin\<close> functions agree at every
  site: the value is the sum of the two vertical folded neighbours when \<open>N > 2\<close>, plus
  the sum of the two horizontal folded neighbours when \<open>M > 2\<close>, and \<open>0\<close> when both axes
  are degenerate.
\<close>

theorem neighborSpin_degenerate:
  assumes "N \<le> 2 \<or> M \<le> 2"
  shows "neighborSpin lat N M state row col =
           (if 2 < N then isingSpin (State_at state (fold_prev N row) col) +
                          isingSpin (State_at state (fold_next N row) col) else 0) +
           (if 2 < M then isingSpin (State_at state row (fold_prev M col)) +
                          isingSpin (State_at state row (fold_next M col)) else 0) \<and>
         neighborSpin lat N M state row col = neighborSpin Square N M state row col"
proof -
  have ng: "\<not> (2 < N \<and> 2 < M)" using assms by auto
  have *: "neighborSpin l N M state row col =
           (if 2 < N then isingSpin (State_at state (fold_prev N row) col) +
                          isingSpin (State_at state (fold_next N row) col) else 0) +
           (if 2 < M then isingSpin (State_at state row (fold_prev M col)) +
                          isingSpin (State_at state row (fold_next M col)) else 0)" for l
    using ng by (cases l) (simp_all add: fold_prev_def fold_next_def Let_def)
  show ?thesis using *[of lat] *[of Square] by simp
qed

theorem neighborSpin_degenerate_witness:
  "((2::nat) \<le> 2 \<or> (5::nat) \<le> 2) \<and>
   neighborSpin Triangle 2 5 [[True, True, False, True, True], [True, True, False, True, True]] 1 4
     = 2 \<and>
   neighborSpin Triangle 2 5 [[True, True, False, True, True], [True, True, False, True, True]] 1 4
     = neighborSpin Square 2 5
         [[True, True, False, True, True], [True, True, False, True, True]] 1 4"
  using neighborSpin_degenerate [of 2 5 Triangle
     "[[True, True, False, True, True], [True, True, False, True, True]]" 1 4]
  by (simp add: fold_prev_def fold_next_def State_at_def isingSpin_def)

section \<open>The heat-bath probability\<close>

lemma heatBath_argument_unit:
  "heatBath_argument (Parameter_default\<lparr>param_T := 1\<rparr>) 0 = Fin 0"
  "heatBath_argument (Parameter_default\<lparr>param_T := 1\<rparr>) (- 4) = Fin (- 4)"
  unfolding heatBath_argument_def kbT_unit
  by (simp_all add: d_round_values Parameter_default_def)

text \<open>
  The argument is a NaN only when the quotient \<open>J / (kb \<cdot> T)\<close> is one, or is infinite
  while the neighbour sum is \<open>0\<close>.
\<close>

lemma heatBath_argument_not_NaN:
  assumes "S \<noteq> 0" and "kbT p \<noteq> NaN" and "kbT p \<noteq> Fin 0 \<or> param_J p \<noteq> 0"
  shows "heatBath_argument p S \<noteq> NaN"
proof -
  have r: "d_round x \<noteq> NaN" for x by (simp add: d_round_def)
  have q: "d_div (Fin (real_of_int (sint (param_J p)))) (kbT p) \<noteq> NaN"
    using assms(2,3) by (cases "kbT p") (auto simp: r signed_eq_0_iff)
  show ?thesis
    unfolding heatBath_argument_def
    using q assms(1)
    by (cases "d_div (Fin (real_of_int (sint (param_J p)))) (kbT p)") (auto simp: r)
qed

text \<open>
  C7 (as amended). With a \<^verbatim>\<open>tanh\<close> whose results lie between \<open>-1\<close> and \<open>1\<close>, the value
  \<open>0.5 \<cdot> (tanh (J / (kb \<cdot> T) \<cdot> S) + 1)\<close> the heat-bath update computes in double precision
  lies in the closed interval from \<open>0\<close> to \<open>1\<close> for every \<open>S\<close>, \<open>J\<close>, \<open>kb\<close> and \<open>T\<close> for
  which the argument \<open>J / (kb \<cdot> T) \<cdot> S\<close> of \<^verbatim>\<open>tanh\<close> is computed as a number or an infinity,
  not as a NaN.
\<close>

theorem heatBath_probability_bounds:
  assumes lib: "\<forall>x. x \<noteq> NaN \<longrightarrow> tanh_range (std_tanh C x)"
    and arg: "heatBath_argument p S \<noteq> NaN"
  shows "in_unit_interval (heatBath_probability C p S)"
proof -
  from lib arg have "tanh_range (std_tanh C (heatBath_argument p S))" by blast
  then obtain t where t: "std_tanh C (heatBath_argument p S) = Fin t" "- 1 \<le> t" "t \<le> 1"
    by (auto simp: tanh_range_def split: double.splits)
  have "\<bar>t + 1\<bar> \<le> 2 powi 1" using t by simp
  from d_round_within [OF this] t obtain s where
    s: "d_round (t + 1) = Fin s" "\<bar>s\<bar> \<le> 2" "0 \<le> s" by auto
  have "\<bar>1 / 2 * s\<bar> \<le> 2 powi 0" using s by simp
  from d_round_within [OF this] s obtain r where
    r: "d_round (1 / 2 * s) = Fin r" "\<bar>r\<bar> \<le> 1" "0 \<le> r" by auto
  have "heatBath_probability C p S = Fin r"
    using t s r by (simp add: heatBath_probability_def)
  with r show ?thesis by (simp add: in_unit_interval_def)
qed

theorem heatBath_probability_bounds_witness:
  "heatBath_argument (Parameter_default\<lparr>param_T := 1\<rparr>) (- 4) = Fin (- 4) \<and>
   in_unit_interval (heatBath_probability cmath_rounded (Parameter_default\<lparr>param_T := 1\<rparr>) (- 4))"
proof -
  have lib: "\<forall>x. x \<noteq> NaN \<longrightarrow> tanh_range (std_tanh cmath_rounded x)"
    using cmath_rounded_tanh_range by blast
  have arg: "heatBath_argument (Parameter_default\<lparr>param_T := 1\<rparr>) (- 4) \<noteq> NaN"
    by (simp add: heatBath_argument_unit)
  from heatBath_probability_bounds [OF lib arg] show ?thesis
    by (simp add: heatBath_argument_unit)
qed

text \<open>
  For \<open>J = 2 ^ 30\<close>, \<open>kb = 1\<close>, \<open>T = 2 powi (- 1000)\<close>, which is positive, and \<open>S = 0\<close> the
  quotient \<open>J / (kb \<cdot> T)\<close> overflows to infinity, its product with \<open>0\<close> is a NaN, and so
  is the value.
\<close>

theorem heatBath_probability_counterexample:
  "0 < param_T (Parameter_default\<lparr>param_J := 1073741824, param_T := 2 powi (- 1000)\<rparr>) \<and>
   heatBath_probability cmath_rounded
     (Parameter_default\<lparr>param_J := 1073741824, param_T := 2 powi (- 1000)\<rparr>) 0 = NaN \<and>
   \<not> in_unit_interval (heatBath_probability cmath_rounded
     (Parameter_default\<lparr>param_J := 1073741824, param_T := 2 powi (- 1000)\<rparr>) 0)"
proof -
  let ?p = "Parameter_default\<lparr>param_J := 1073741824, param_T := 2 powi (- 1000)\<rparr>"
  have T: "d_round (2 powi (- 1000)) = Fin (2 powi (- 1000))"
    by (rule d_round_pow2) simp_all
  have k: "kbT ?p = Fin (2 powi (- 1000))"
    using T by (simp add: kbT_def Parameter_default_def d_round_values)
  have "(1073741824::real) = 2 powi 30" by (simp add: power_int_def)
  moreover have "(2::real) powi 30 / 2 powi (- 1000) = 2 powi (30 - (- 1000))"
    by (rule power_int_diff [symmetric]) simp
  ultimately have q: "(1073741824::real) / 2 powi (- 1000) = 2 powi 1030"
    by (simp only: diff_minus_eq_add) simp
  have "(2::real) powi 1024 \<le> 2 powi 1030"
    by (rule power_int_increasing) simp_all
  then have o: "d_round (1073741824 / 2 powi (- 1000)) = PInf"
    unfolding q by (rule d_round_overflow)
  have nz: "(2::real) powi (- 1000) \<noteq> 0" by simp
  have J: "sint (1073741824 :: 32 word) = 1073741824" by simp
  have a: "heatBath_argument ?p 0 = NaN"
    unfolding heatBath_argument_def k using o nz J by (simp add: Parameter_default_def)
  have "heatBath_probability cmath_rounded ?p 0 = NaN"
    unfolding heatBath_probability_def a by (simp add: cmath_rounded_def)
  then show ?thesis by (simp add: in_unit_interval_def Parameter_default_def)
qed

lemma heatBath_probability_unit_0:
  "heatBath_probability cmath_rounded (Parameter_default\<lparr>param_T := 1\<rparr>) 0 = Fin (1 / 2)"
  unfolding heatBath_probability_def heatBath_argument_unit
  by (simp add: cmath_rounded_def d_round_values)


section \<open>The mirror rule at a corner\<close>

text \<open>
  C2. On the \<open>4 \<times> 4\<close> lattice with every site down, \<open>randomAction\<close> targeting \<open>(0, 0)\<close>
  writes the new value to \<open>(0, 0)\<close>, \<open>(3, 0)\<close> and \<open>(0, 3)\<close> and leaves \<open>(3, 3)\<close> as it was.
  So does the heat-bath update targeting \<open>(0, 0)\<close> on a \<open>4 \<times> 4\<close> lattice whose four
  corners are down and where the neighbour sum of \<open>(0, 0)\<close> is \<open>0\<close>, for \<open>J = kb = T = 1\<close>
  and \<open>u = 0.25\<close>: the probability is \<open>0.5\<close> and the new value is up.
\<close>

theorem corner_update_leaves_opposite_corner:
  "randomAction_at 4 4 0 0 (State_init 4 4 False) =
     [[True, False, False, True],
      [False, False, False, False],
      [False, False, False, False],
      [True, False, False, False]] \<and>
   IsingHeatBathMethod_update_at cmath_rounded Square (Parameter_default\<lparr>param_T := 1\<rparr>) 4 4 0 0
     (1 / 4)
     [[False, True, False, False],
      [True, False, False, True],
      [False, False, False, False],
      [False, True, False, False]] =
     [[True, True, False, True],
      [True, False, False, True],
      [False, False, False, False],
      [True, True, False, False]]"
proof -
  have S: "neighborSpin Square 4 4
     [[False, True, False, False],
      [True, False, False, True],
      [False, False, False, False],
      [False, True, False, False]] 0 0 = 0"
    by (simp add: State_at_def isingSpin_def)
  have a: "randomAction_at 4 4 0 0 (State_init 4 4 False) =
     [[True, False, False, True],
      [False, False, False, False],
      [False, False, False, False],
      [True, False, False, False]]"
    by (simp add: randomAction_at_def State_init_4_4 State_set_def State_at_def Let_def)
  have b: "IsingHeatBathMethod_update_at cmath_rounded Square (Parameter_default\<lparr>param_T := 1\<rparr>)
     4 4 0 0 (1 / 4)
     [[False, True, False, False],
      [True, False, False, True],
      [False, False, False, False],
      [False, True, False, False]] =
     [[True, True, False, True],
      [True, False, False, True],
      [False, False, False, False],
      [True, True, False, False]]"
    unfolding IsingHeatBathMethod_update_at_def S Let_def heatBath_probability_unit_0
    by (simp add: IsingHeatBathMethod_write_def State_set_def Let_def)
  from a b show ?thesis by (rule conjI)
qed

text \<open>An update that targets a site off every edge writes that site only.\<close>

lemma interior_update_single_site:
  assumes "0 < row" "row < N - 1" "0 < col" "col < M - 1"
  shows "randomAction_at N M row col s = State_set s row col (\<not> State_at s row col)"
    and "IsingHeatBathMethod_write N M row col v s = State_set s row col v"
  using assms by (simp_all add: randomAction_at_def IsingHeatBathMethod_write_def Let_def)

section \<open>The Metropolis step\<close>

text \<open>
  C3. One Metropolis update computes the energy of the state, applies the mutation to a
  copy, computes the energy of this trial, and returns the trial when its energy is
  lower; otherwise it returns the trial exactly when the acceptance draw is true, and the
  unchanged state when the draw is false. The acceptance draw is made only in the second
  case.
\<close>

theorem MetropolisMethod_update_accept_reject:
  assumes "fAction state w = (trial, w1)"
    and "fRandAccept (fEnergy state) (fEnergy trial) w1 = (accepted, w2)"
  shows "MetropolisMethod_update fEnergy fAction fRandAccept state w =
           (if fEnergy trial < fEnergy state then (trial, w1)
            else if accepted then (trial, w2)
            else (state, w2))"
  using assms by (simp add: MetropolisMethod_update_def Let_def)

lemma randomAccept_uphill_8:
  "randomAccept counter_random cmath_rounded Parameter_default (- 18) (- 10)
      ((counter_statics 1)\<lparr>IsingModel_mt := 3\<rparr>) =
    (False, (counter_statics 1)\<lparr>IsingModel_mt := 4\<rparr>)"
proof -
  from kbT_default obtain t where t: "kbT Parameter_default = Fin t" "1 / 16 \<le> t" "t \<le> 1 / 8"
    by auto
  have tpos: "0 < t" using t by simp
  have "- 8 / t \<le> - 64" using t tpos by (simp add: field_simps)
  moreover have "- 128 \<le> - 8 / t" using t tpos by (simp add: field_simps)
  ultimately have "- 8 / t \<le> - (2 powi 6)" and "- (2 powi 7) \<le> - 8 / t" by simp_all
  from d_round_between_neg [OF this] obtain a where
    a: "d_round (- 8 / t) = Fin a" "a \<le> - 64" by auto
  have "exp a \<le> exp (- 64)" using a by simp
  moreover have "exp (- (64::real)) \<le> 1 / (1 + 64)" by (rule exp_minus_le) simp
  ultimately have "exp a \<le> 1 / (1 + 64)" by (rule order_trans)
  moreover have "1 / (1 + 64) \<le> (1 / 2 :: real)" by simp
  ultimately have "exp a \<le> 1 / 2" by (rule order_trans)
  then have "\<bar>exp a\<bar> \<le> 2 powi (- 1)" by simp
  from d_round_within [OF this] obtain e where
    e: "d_round (exp a) = Fin e" "\<bar>e\<bar> \<le> 1 / 2" by auto
  have d: "d_div (d_round (- (- 10 - - 18))) (kbT Parameter_default) = Fin a"
    using t tpos a by (simp add: d_round_values)
  have "\<not> d_less (Fin (3 / 4)) (std_exp cmath_rounded (Fin a))"
    using e by (simp add: cmath_rounded_def)
  then show ?thesis
    unfolding randomAccept_def d
    by (simp add: counter_random_def counter_statics_def Let_def)
qed

theorem MetropolisMethod_update_accept_reject_witness:
  "randomAction counter_random Parameter_default 4 4
      [[True, True, True, True], [True, True, False, True],
       [True, True, True, True], [True, True, True, True]]
      (counter_statics 1) =
    (State_init 4 4 True, (counter_statics 1)\<lparr>IsingModel_mt := 3\<rparr>) \<and>
   MetropolisMethod_update (energy Parameter_default 4 4)
      (randomAction counter_random Parameter_default 4 4)
      (randomAccept counter_random cmath_rounded Parameter_default)
      [[True, True, True, True], [True, True, False, True],
       [True, True, True, True], [True, True, True, True]]
      (counter_statics 1) =
    (State_init 4 4 True, (counter_statics 1)\<lparr>IsingModel_mt := 3\<rparr>) \<and>
   randomAction counter_random Parameter_default 4 4 (State_init 4 4 True) (counter_statics 1) =
    ([[True, True, True, True], [True, True, False, True],
      [True, True, True, True], [True, True, True, True]],
     (counter_statics 1)\<lparr>IsingModel_mt := 3\<rparr>) \<and>
   randomAccept counter_random cmath_rounded Parameter_default (- 18) (- 10)
      ((counter_statics 1)\<lparr>IsingModel_mt := 3\<rparr>) =
    (False, (counter_statics 1)\<lparr>IsingModel_mt := 4\<rparr>) \<and>
   MetropolisMethod_update (energy Parameter_default 4 4)
      (randomAction counter_random Parameter_default 4 4)
      (randomAccept counter_random cmath_rounded Parameter_default)
      (State_init 4 4 True) (counter_statics 1) =
    (State_init 4 4 True, (counter_statics 1)\<lparr>IsingModel_mt := 4\<rparr>)"
proof -
  let ?one = "[[True, True, True, True], [True, True, False, True],
       [True, True, True, True], [True, True, True, True]]"
  let ?w1 = "(counter_statics 1)\<lparr>IsingModel_mt := 3\<rparr>"
  have a1: "randomAction counter_random Parameter_default 4 4 ?one (counter_statics 1) =
        (State_init 4 4 True, ?w1)"
    by (simp add: randomAction_def randomAction_at_def counter_random_def counter_statics_def
        State_init_4_4 State_set_def State_at_def Let_def)
  have r1: "randomAccept counter_random cmath_rounded Parameter_default
        (energy Parameter_default 4 4 ?one) (energy Parameter_default 4 4 (State_init 4 4 True)) ?w1 =
        (fst (randomAccept counter_random cmath_rounded Parameter_default
        (energy Parameter_default 4 4 ?one) (energy Parameter_default 4 4 (State_init 4 4 True)) ?w1),
         snd (randomAccept counter_random cmath_rounded Parameter_default
        (energy Parameter_default 4 4 ?one) (energy Parameter_default 4 4 (State_init 4 4 True)) ?w1))"
    by simp
  have a2: "randomAction counter_random Parameter_default 4 4 (State_init 4 4 True) (counter_statics 1) =
        (?one, ?w1)"
    by (simp add: randomAction_def randomAction_at_def counter_random_def counter_statics_def
        State_init_4_4 State_set_def State_at_def Let_def)
  have r2: "randomAccept counter_random cmath_rounded Parameter_default
        (energy Parameter_default 4 4 (State_init 4 4 True)) (energy Parameter_default 4 4 ?one) ?w1 =
        (False, (counter_statics 1)\<lparr>IsingModel_mt := 4\<rparr>)"
    unfolding energy_allUp4 energy_oneDown4 by (rule randomAccept_uphill_8)
  have r2': "randomAccept counter_random cmath_rounded Parameter_default (- 18) (- 10) ?w1 =
        (False, (counter_statics 1)\<lparr>IsingModel_mt := 4\<rparr>)"
    using r2 by (simp only: energy_allUp4 energy_oneDown4)
  show ?thesis
    using a1 a2 r2' MetropolisMethod_update_accept_reject
        [where fEnergy = "energy Parameter_default 4 4"
           and fAction = "randomAction counter_random Parameter_default 4 4"
           and fRandAccept = "randomAccept counter_random cmath_rounded Parameter_default", OF a1 r1]
      MetropolisMethod_update_accept_reject
        [where fEnergy = "energy Parameter_default 4 4"
           and fAction = "randomAction counter_random Parameter_default 4 4"
           and fRandAccept = "randomAccept counter_random cmath_rounded Parameter_default", OF a2 r2]
    by (simp add: energy_allUp4 energy_oneDown4)
qed

section \<open>The heat-bath step\<close>



section \<open>Construction and the average spin\<close>

text \<open>
  C9. Constructing a lattice with no rows or no columns fails with the invalid-size
  error, so every constructed lattice has \<open>N \<cdot> M \<noteq> 0\<close> and \<open>averageSpin\<close> returns the
  magnetization divided by this nonzero count.
\<close>

theorem State_ctor_rejects_empty:
  "(N = 0 \<or> M = 0 \<longrightarrow> State_ctor N M init = Inl InvalidSize) \<and>
   (\<forall>s. State_ctor N M init = Inr s \<longrightarrow>
        State_wf N M s \<and> N * M \<noteq> 0 \<and>
        averageSpin N M s = Inr (magnetization N M s / real (N * M)))"
  by (auto simp: State_ctor_def averageSpin_def State_wf_def list_all_length Let_def)

theorem State_ctor_rejects_empty_witness:
  "State_ctor 0 3 True = Inl InvalidSize \<and> State_ctor 3 0 True = Inl InvalidSize \<and>
   State_ctor 2 2 True = Inr [[True, True], [True, True]] \<and>
   averageSpin 2 2 [[True, True], [True, True]] = Inr 1"
proof -
  have c: "State_ctor 2 2 True = Inr [[True, True], [True, True]]"
    by (simp add: State_ctor_def numeral_eq_Suc)
  from State_ctor_rejects_empty [of 0 3 True] State_ctor_rejects_empty [of 3 0 True]
    State_ctor_rejects_empty [of 2 2 True] c
  show ?thesis by (simp add: magnetization_allUp2)
qed

section \<open>Runs with a fixed seed\<close>

lemma randomAction_frame:
  "IsingModel_mt w = IsingModel_mt w' \<Longrightarrow>
   fst (randomAction L p N M s w) = fst (randomAction L p N M s w') \<and>
   IsingModel_mt (snd (randomAction L p N M s w)) = IsingModel_mt (snd (randomAction L p N M s w'))"
  by (simp add: randomAction_def Let_def split: prod.splits)

lemma randomAccept_frame:
  "IsingModel_mt w = IsingModel_mt w' \<Longrightarrow>
   fst (randomAccept L C p a b w) = fst (randomAccept L C p a b w') \<and>
   IsingModel_mt (snd (randomAccept L C p a b w)) = IsingModel_mt (snd (randomAccept L C p a b w'))"
  by (simp add: randomAccept_def Let_def split: prod.splits)

lemma Metropolis_update_frame:
  assumes "IsingModel_mt w = IsingModel_mt w'"
  shows "fst (MetropolisMethod_update (energy p N M) (randomAction L p N M) (randomAccept L C p) s w) =
         fst (MetropolisMethod_update (energy p N M) (randomAction L p N M) (randomAccept L C p) s w') \<and>
         IsingModel_mt (snd (MetropolisMethod_update (energy p N M) (randomAction L p N M)
            (randomAccept L C p) s w)) =
         IsingModel_mt (snd (MetropolisMethod_update (energy p N M) (randomAction L p N M)
            (randomAccept L C p) s w'))"
proof -
  obtain t w1 where a: "randomAction L p N M s w = (t, w1)" by (cases "randomAction L p N M s w")
  obtain t' w1' where a': "randomAction L p N M s w' = (t', w1')"
    by (cases "randomAction L p N M s w'")
  from randomAction_frame [OF assms, where L = L and p = p and N = N and M = M and s = s] a a'
  have t: "t' = t" and g1: "IsingModel_mt w1 = IsingModel_mt w1'" by simp_all
  obtain acc w2 where r: "randomAccept L C p (energy p N M s) (energy p N M t) w1 = (acc, w2)"
    by (cases "randomAccept L C p (energy p N M s) (energy p N M t) w1")
  obtain acc' w2' where r': "randomAccept L C p (energy p N M s) (energy p N M t) w1' = (acc', w2')"
    by (cases "randomAccept L C p (energy p N M s) (energy p N M t) w1'")
  from randomAccept_frame [OF g1, where L = L and C = C and p = p and a = "energy p N M s"
      and b = "energy p N M t"] r r'
  have acc: "acc' = acc" and g2: "IsingModel_mt w2 = IsingModel_mt w2'" by simp_all
  show ?thesis
    using a a' r r' t g1 acc g2 by (simp add: MetropolisMethod_update_def Let_def)
qed

lemma Metropolis_run_frame:
  "IsingModel_mt w = IsingModel_mt w' \<Longrightarrow>
   MetropolisMethod_trajectory (energy p N M) (randomAction L p N M) (randomAccept L C p) K s w =
   MetropolisMethod_trajectory (energy p N M) (randomAction L p N M) (randomAccept L C p) K s w' \<and>
   fst (MetropolisMethod_optimize (energy p N M) (randomAction L p N M) (randomAccept L C p) K s w) =
   fst (MetropolisMethod_optimize (energy p N M) (randomAction L p N M) (randomAccept L C p) K s w')"
proof (induction K arbitrary: s w w')
  case 0
  show ?case by simp
next
  case (Suc K)
  let ?u = "MetropolisMethod_update (energy p N M) (randomAction L p N M) (randomAccept L C p) s"
  from Metropolis_update_frame [OF Suc.prems, where p = p and N = N and M = M and L = L
      and C = C and s = s]
  have s: "fst (?u w) = fst (?u w')" and g: "IsingModel_mt (snd (?u w)) = IsingModel_mt (snd (?u w'))"
    by simp_all
  from Suc.IH [OF g, of "fst (?u w)"] s show ?case
    by (simp add: case_prod_beta Let_def)
qed

lemma Metropolis_optimize_last:
  "fst (MetropolisMethod_optimize fE fA fR K s w) = last (s # MetropolisMethod_trajectory fE fA fR K s w)"
  by (induction K arbitrary: s w) (simp_all add: case_prod_beta Let_def)

lemma HeatBath_update_frame:
  "IsingHeatBathMethod_mt w lat = IsingHeatBathMethod_mt w' lat \<Longrightarrow>
   fst (IsingHeatBathMethod_update L C lat p N M s w) = fst (IsingHeatBathMethod_update L C lat p N M s w') \<and>
   IsingHeatBathMethod_mt (snd (IsingHeatBathMethod_update L C lat p N M s w)) lat =
   IsingHeatBathMethod_mt (snd (IsingHeatBathMethod_update L C lat p N M s w')) lat"
  by (simp add: IsingHeatBathMethod_update_def Let_def split: prod.splits)

lemma HeatBath_run_frame:
  "IsingHeatBathMethod_mt w lat = IsingHeatBathMethod_mt w' lat \<Longrightarrow>
   IsingHeatBathMethod_trajectory L C lat p N M K s w = IsingHeatBathMethod_trajectory L C lat p N M K s w' \<and>
   fst (IsingHeatBathMethod_optimize L C lat p N M K s w) =
   fst (IsingHeatBathMethod_optimize L C lat p N M K s w')"
proof (induction K arbitrary: s w w')
  case 0
  show ?case by simp
next
  case (Suc K)
  let ?u = "IsingHeatBathMethod_update L C lat p N M s"
  from HeatBath_update_frame [OF Suc.prems, where L = L and C = C and p = p and N = N
      and M = M and s = s]
  have s: "fst (?u w) = fst (?u w')"
    and g: "IsingHeatBathMethod_mt (snd (?u w)) lat = IsingHeatBathMethod_mt (snd (?u w')) lat"
    by simp_all
  from Suc.IH [OF g, of "fst (?u w)"] s show ?case
    by (simp add: case_prod_beta Let_def)
qed

lemma HeatBath_optimize_last:
  "fst (IsingHeatBathMethod_optimize L C lat p N M K s w) =
   last (s # IsingHeatBathMethod_trajectory L C lat p N M K s w)"
  by (induction K arbitrary: s w) (simp_all add: case_prod_beta Let_def)

lemma setSeed_all_streams:
  "IsingModel_mt (setSeed_all L N M lat seed w) = mt_seed L seed"
  "IsingHeatBathMethod_mt (setSeed_all L N M lat seed w) lat = mt_seed L seed"
  "State_mt (setSeed_all L N M lat seed w) (N, M) = mt_seed L seed"
  by (simp_all add: setSeed_all_def IsingModel_setSeed_def IsingHeatBathMethod_setSeed_def
      State_setSeed_def)

text \<open>
  C8. After the state, model and sampler streams have been seeded with the same seed,
  a run of \<open>K\<close> Metropolis updates, and a run of \<open>K\<close> heat-bath updates, from the same
  lattice passes through the same lattices and ends in the same lattice, whatever the
  streams held before the seeding.
\<close>

theorem optimize_deterministic:
  "MetropolisMethod_trajectory (energy p N M) (randomAction L p N M) (randomAccept L C p) K state
      (setSeed_all L N M lat seed w) =
   MetropolisMethod_trajectory (energy p N M) (randomAction L p N M) (randomAccept L C p) K state
      (setSeed_all L N M lat seed w') \<and>
   fst (MetropolisMethod_optimize (energy p N M) (randomAction L p N M) (randomAccept L C p) K state
      (setSeed_all L N M lat seed w)) =
   fst (MetropolisMethod_optimize (energy p N M) (randomAction L p N M) (randomAccept L C p) K state
      (setSeed_all L N M lat seed w')) \<and>
   fst (MetropolisMethod_optimize (energy p N M) (randomAction L p N M) (randomAccept L C p) K state
      (setSeed_all L N M lat seed w)) =
   last (state # MetropolisMethod_trajectory (energy p N M) (randomAction L p N M)
      (randomAccept L C p) K state (setSeed_all L N M lat seed w)) \<and>
   IsingHeatBathMethod_trajectory L C lat p N M K state (setSeed_all L N M lat seed w) =
   IsingHeatBathMethod_trajectory L C lat p N M K state (setSeed_all L N M lat seed w') \<and>
   fst (IsingHeatBathMethod_optimize L C lat p N M K state (setSeed_all L N M lat seed w)) =
   fst (IsingHeatBathMethod_optimize L C lat p N M K state (setSeed_all L N M lat seed w')) \<and>
   fst (IsingHeatBathMethod_optimize L C lat p N M K state (setSeed_all L N M lat seed w)) =
   last (state # IsingHeatBathMethod_trajectory L C lat p N M K state (setSeed_all L N M lat seed w))"
proof -
  have m: "IsingModel_mt (setSeed_all L N M lat seed w) = IsingModel_mt (setSeed_all L N M lat seed w')"
    by (simp add: setSeed_all_streams)
  have h: "IsingHeatBathMethod_mt (setSeed_all L N M lat seed w) lat =
           IsingHeatBathMethod_mt (setSeed_all L N M lat seed w') lat"
    by (simp add: setSeed_all_streams)
  from Metropolis_run_frame [OF m, where p = p and N = N and M = M and L = L and C = C
      and K = K and s = state]
    HeatBath_run_frame [OF h, where L = L and C = C and p = p and N = N and M = M and K = K
      and s = state]
  show ?thesis
    by (simp add: Metropolis_optimize_last HeatBath_optimize_last)
qed

section \<open>Ownership of the streams\<close>

lemma State_initRand_frame:
  "State_initRand L N M s (w\<lparr>IsingModel_mt := g, IsingHeatBathMethod_mt := h\<rparr>) =
     (fst (State_initRand L N M s w),
      (snd (State_initRand L N M s w))\<lparr>IsingModel_mt := g, IsingHeatBathMethod_mt := h\<rparr>)"
  by (simp add: State_initRand_def Let_def case_prod_beta)

text \<open>
  C6 (as amended). Each class, that is \<^verbatim>\<open>IsingModel\<close>, each instantiation
  \<^verbatim>\<open>State<N, M, bool>\<close> and each instantiation \<^verbatim>\<open>IsingHeatBathMethod<L>\<close>, has one
  explicitly seedable stream, which all its instances share. \<open>setSeed\<close> puts the stream
  of its class into the state the seed fixes, whatever the stream held before, and
  leaves the stream of every other class as it was. Every draw reads and advances the
  stream of its own class only: it gives the same result, and leaves the other streams
  as they are, whatever the streams of the other classes hold. So after a reseeding the
  outputs of a class do not depend on the other classes' streams. Which instance of a
  class makes a draw makes no difference to the stream the draw reads and leaves behind.
\<close>

theorem streams_per_class:
  "IsingModel_mt (IsingModel_setSeed L seed w) = mt_seed L seed \<and>
   State_mt (IsingModel_setSeed L seed w) = State_mt w \<and>
   IsingHeatBathMethod_mt (IsingModel_setSeed L seed w) = IsingHeatBathMethod_mt w \<and>
   State_mt (State_setSeed L N M seed w) (N, M) = mt_seed L seed \<and>
   (nm \<noteq> (N, M) \<longrightarrow> State_mt (State_setSeed L N M seed w) nm = State_mt w nm) \<and>
   IsingModel_mt (State_setSeed L N M seed w) = IsingModel_mt w \<and>
   IsingHeatBathMethod_mt (State_setSeed L N M seed w) = IsingHeatBathMethod_mt w \<and>
   IsingHeatBathMethod_mt (IsingHeatBathMethod_setSeed L lat seed w) lat = mt_seed L seed \<and>
   (lat' \<noteq> lat \<longrightarrow>
      IsingHeatBathMethod_mt (IsingHeatBathMethod_setSeed L lat seed w) lat' =
      IsingHeatBathMethod_mt w lat') \<and>
   IsingModel_mt (IsingHeatBathMethod_setSeed L lat seed w) = IsingModel_mt w \<and>
   State_mt (IsingHeatBathMethod_setSeed L lat seed w) = State_mt w \<and>
   randomAction L p N M s (w\<lparr>State_mt := a, IsingHeatBathMethod_mt := h\<rparr>) =
     (fst (randomAction L p N M s w),
      (snd (randomAction L p N M s w))\<lparr>State_mt := a, IsingHeatBathMethod_mt := h\<rparr>) \<and>
   randomAccept L C p e e' (w\<lparr>State_mt := a, IsingHeatBathMethod_mt := h\<rparr>) =
     (fst (randomAccept L C p e e' w),
      (snd (randomAccept L C p e e' w))\<lparr>State_mt := a, IsingHeatBathMethod_mt := h\<rparr>) \<and>
   State_initRand L N M s (w\<lparr>IsingModel_mt := g, IsingHeatBathMethod_mt := h\<rparr>) =
     (fst (State_initRand L N M s w),
      (snd (State_initRand L N M s w))\<lparr>IsingModel_mt := g, IsingHeatBathMethod_mt := h\<rparr>) \<and>
   (nm \<noteq> (N, M) \<longrightarrow>
     State_initRand L N M s (w\<lparr>State_mt := (State_mt w)(nm := g)\<rparr>) =
       (fst (State_initRand L N M s w),
        (snd (State_initRand L N M s w))
          \<lparr>State_mt := (State_mt (snd (State_initRand L N M s w)))(nm := g)\<rparr>)) \<and>
   IsingHeatBathMethod_update L C lat p N M s (w\<lparr>State_mt := a, IsingModel_mt := g\<rparr>) =
     (fst (IsingHeatBathMethod_update L C lat p N M s w),
      (snd (IsingHeatBathMethod_update L C lat p N M s w))\<lparr>State_mt := a, IsingModel_mt := g\<rparr>) \<and>
   (lat' \<noteq> lat \<longrightarrow>
     IsingHeatBathMethod_update L C lat p N M s
         (w\<lparr>IsingHeatBathMethod_mt := (IsingHeatBathMethod_mt w)(lat' := g)\<rparr>) =
       (fst (IsingHeatBathMethod_update L C lat p N M s w),
        (snd (IsingHeatBathMethod_update L C lat p N M s w))
          \<lparr>IsingHeatBathMethod_mt :=
             (IsingHeatBathMethod_mt (snd (IsingHeatBathMethod_update L C lat p N M s w)))
               (lat' := g)\<rparr>)) \<and>
   randomAction L p N M s w = randomAction L p' N M s w \<and>
   IsingModel_mt (snd (randomAccept L C p e e' w)) =
     IsingModel_mt (snd (randomAccept L C p' e e' w)) \<and>
   IsingHeatBathMethod_mt (snd (IsingHeatBathMethod_update L C lat p N M s w)) lat =
     IsingHeatBathMethod_mt (snd (IsingHeatBathMethod_update L C lat p' N M s w)) lat"
proof -
  have 1: "IsingModel_mt (IsingModel_setSeed L seed w) = mt_seed L seed"
    and 2: "State_mt (IsingModel_setSeed L seed w) = State_mt w"
    and 3: "IsingHeatBathMethod_mt (IsingModel_setSeed L seed w) = IsingHeatBathMethod_mt w"
    by (simp_all add: IsingModel_setSeed_def)
  have 4: "State_mt (State_setSeed L N M seed w) (N, M) = mt_seed L seed"
    and 5: "nm \<noteq> (N, M) \<longrightarrow> State_mt (State_setSeed L N M seed w) nm = State_mt w nm"
    and 6: "IsingModel_mt (State_setSeed L N M seed w) = IsingModel_mt w"
    and 7: "IsingHeatBathMethod_mt (State_setSeed L N M seed w) = IsingHeatBathMethod_mt w"
    by (simp_all add: State_setSeed_def)
  have 8: "IsingHeatBathMethod_mt (IsingHeatBathMethod_setSeed L lat seed w) lat = mt_seed L seed"
    and 9: "lat' \<noteq> lat \<longrightarrow>
      IsingHeatBathMethod_mt (IsingHeatBathMethod_setSeed L lat seed w) lat' =
      IsingHeatBathMethod_mt w lat'"
    and 10: "IsingModel_mt (IsingHeatBathMethod_setSeed L lat seed w) = IsingModel_mt w"
    and 11: "State_mt (IsingHeatBathMethod_setSeed L lat seed w) = State_mt w"
    by (simp_all add: IsingHeatBathMethod_setSeed_def)
  have 12: "randomAction L p N M s (w\<lparr>State_mt := a, IsingHeatBathMethod_mt := h\<rparr>) =
     (fst (randomAction L p N M s w),
      (snd (randomAction L p N M s w))\<lparr>State_mt := a, IsingHeatBathMethod_mt := h\<rparr>)"
    by (simp add: randomAction_def Let_def case_prod_beta)
  have 13: "randomAccept L C p e e' (w\<lparr>State_mt := a, IsingHeatBathMethod_mt := h\<rparr>) =
     (fst (randomAccept L C p e e' w),
      (snd (randomAccept L C p e e' w))\<lparr>State_mt := a, IsingHeatBathMethod_mt := h\<rparr>)"
    by (simp add: randomAccept_def Let_def case_prod_beta)
  note 14 = State_initRand_frame
    [where L = L and N = N and M = M and s = s and w = w and g = g and h = h]
  have 15: "nm \<noteq> (N, M) \<longrightarrow>
     State_initRand L N M s (w\<lparr>State_mt := (State_mt w)(nm := g)\<rparr>) =
       (fst (State_initRand L N M s w),
        (snd (State_initRand L N M s w))
          \<lparr>State_mt := (State_mt (snd (State_initRand L N M s w)))(nm := g)\<rparr>)"
    by (auto simp add: State_initRand_def Let_def case_prod_beta fun_upd_twist)
  have 16: "IsingHeatBathMethod_update L C lat p N M s (w\<lparr>State_mt := a, IsingModel_mt := g\<rparr>) =
     (fst (IsingHeatBathMethod_update L C lat p N M s w),
      (snd (IsingHeatBathMethod_update L C lat p N M s w))\<lparr>State_mt := a, IsingModel_mt := g\<rparr>)"
    by (simp add: IsingHeatBathMethod_update_def Let_def case_prod_beta)
  have 17: "lat' \<noteq> lat \<longrightarrow>
     IsingHeatBathMethod_update L C lat p N M s
         (w\<lparr>IsingHeatBathMethod_mt := (IsingHeatBathMethod_mt w)(lat' := g)\<rparr>) =
       (fst (IsingHeatBathMethod_update L C lat p N M s w),
        (snd (IsingHeatBathMethod_update L C lat p N M s w))
          \<lparr>IsingHeatBathMethod_mt :=
             (IsingHeatBathMethod_mt (snd (IsingHeatBathMethod_update L C lat p N M s w)))
               (lat' := g)\<rparr>)"
    by (auto simp add: IsingHeatBathMethod_update_def Let_def case_prod_beta fun_upd_twist)
  have 18: "randomAction L p N M s w = randomAction L p' N M s w"
    by (simp add: randomAction_def)
  have 19: "IsingModel_mt (snd (randomAccept L C p e e' w)) =
     IsingModel_mt (snd (randomAccept L C p' e e' w))"
    by (simp add: randomAccept_def Let_def case_prod_beta)
  have 20: "IsingHeatBathMethod_mt (snd (IsingHeatBathMethod_update L C lat p N M s w)) lat =
     IsingHeatBathMethod_mt (snd (IsingHeatBathMethod_update L C lat p' N M s w)) lat"
    by (simp add: IsingHeatBathMethod_update_def Let_def case_prod_beta)
  show ?thesis
    by (intro conjI) (fact 1 2 3 4 5 6 7 8 9 10 11 12 13 14 15 16 17 18 19 20)+
qed

theorem streams_per_class_witness:
  "Triangle \<noteq> Square \<and> ((3, 3) :: nat \<times> nat) \<noteq> (4, 4) \<and>
   IsingModel_mt (IsingModel_setSeed counter_random 42 (counter_statics 2)) = 42 \<and>
   State_mt (State_setSeed counter_random 4 4 42 (counter_statics 2)) (4, 4) = 42 \<and>
   State_mt (State_setSeed counter_random 4 4 42 (counter_statics 2)) (3, 3) = 2 \<and>
   IsingHeatBathMethod_mt (IsingHeatBathMethod_setSeed counter_random Square 42 (counter_statics 2))
     Square = 42 \<and>
   IsingHeatBathMethod_mt (IsingHeatBathMethod_setSeed counter_random Square 42 (counter_statics 2))
     Triangle = 2"
  using streams_per_class [where L = counter_random and seed = 42 and w = "counter_statics 2"
      and N = 4 and M = 4 and nm = "(3, 3)" and lat = Square and lat' = Triangle]
  by (simp add: counter_random_def counter_statics_def)

text \<open>
  With the counting generator, the model stream is reseeded with \<open>42\<close>. Drawn at once,
  \<open>randomAction\<close> through the first model object flips site \<open>(2, 3)\<close>. After one
  \<open>randomAction\<close> through a second model object it flips site \<open>(0, 1)\<close> instead: the
  second object has drawn from the same stream.
\<close>

theorem shared_stream_counterexample:
  "fst (randomAction counter_random Parameter_default 4 4 (State_init 4 4 True)
         (snd (randomAction counter_random (Parameter_default\<lparr>param_T := 2\<rparr>) 4 4 (State_init 4 4 True)
                (IsingModel_setSeed counter_random 42 (counter_statics 0))))) \<noteq>
   fst (randomAction counter_random Parameter_default 4 4 (State_init 4 4 True)
         (IsingModel_setSeed counter_random 42 (counter_statics 0)))"
  by (simp add: randomAction_def randomAction_at_def counter_random_def counter_statics_def
      IsingModel_setSeed_def State_init_4_4 State_set_def State_at_def Let_def)

end
